theory Spec2Isabelle
  imports Main "HOL-Library.AList"
begin

section \<open>Data model\<close>

text \<open>
  Identifiers are the document store's ObjectIds. The routes compare them only for
  equality, so a natural number stands for the 24-digit hexadecimal string. An
  identifier is never a falsy JavaScript value. Instants (\<open>Date.now()\<close>,
  \<open>new Date()\<close>) are milliseconds since the epoch. A string is the UTF-8 encoding of
  the JavaScript string's code points.
\<close>

type_synonym oid = nat
type_synonym instant = nat

text \<open>
  Modelled from the spec: models/User.js is not among the sources. A user has an
  identifier, a name and an email; the routes read nothing else of it.
\<close>

record user =
  uid :: oid
  name :: string
  email :: string

text \<open>
  Modelled from the spec: models/Project.js is not among the sources. The routes read
  and write \<open>createdBy\<close> and \<open>teamMembers\<close> (an array of user references, kept in
  insertion order); the descriptive fields are carried as one title.
\<close>

record project =
  p_title :: string
  createdBy :: oid
  teamMembers :: "oid list"

text \<open>The embedded comment of models/Ticket.js, lines 51-65.\<close>

record comment =
  c_author :: oid
  c_text :: string
  c_timestamp :: instant

text \<open>
  The ticket schema of models/Ticket.js. The enumerated fields stay strings, as in the
  schema, and are checked against the schema's \<open>enum\<close> arrays when the document is saved.
\<close>

record ticket =
  t_title :: string
  t_description :: string
  t_priority :: string
  t_status :: string
  t_type :: string
  t_tags :: "string list"
  t_assignee :: "oid option"
  t_reporter :: oid
  t_projectId :: oid
  t_createdBy :: oid
  t_comments :: "comment list"
  t_createdAt :: instant
  t_updatedAt :: instant

text \<open>
  The document store: three collections, each a list of documents in insertion order.
  A user carries its own identifier; a project and a ticket are stored under theirs.
\<close>

record store =
  users :: "user list"
  projects :: "(oid \<times> project) list"
  tickets :: "(oid \<times> ticket) list"

text \<open>
  The status of an error response. A handler returns \<open>Inl\<close> of it with the store it
  leaves behind, or \<open>Inr\<close> of the JSON body. A JavaScript exception inside a handler's
  \<open>try\<close> block reaches its \<open>catch\<close>, which answers 400 or 500 depending on the route.
\<close>

datatype error = BadRequest | Forbidden | NotFound | ServerError

fun http_status :: "error \<Rightarrow> nat" where
  "http_status BadRequest = 400"
| "http_status Forbidden = 403"
| "http_status NotFound = 404"
| "http_status ServerError = 500"

definition User_findById :: "store \<Rightarrow> oid \<Rightarrow> user option" where
  "User_findById st i = find (\<lambda>u. uid u = i) (users st)"

definition User_findOne :: "store \<Rightarrow> string \<Rightarrow> user option" where
  "User_findOne st e = find (\<lambda>u. email u = e) (users st)"

definition Project_findById :: "store \<Rightarrow> oid \<Rightarrow> project option" where
  "Project_findById st i = map_of (projects st) i"

definition Ticket_findById :: "store \<Rightarrow> oid \<Rightarrow> ticket option" where
  "Ticket_findById st i = map_of (tickets st) i"

text \<open>\<open>document.save()\<close> of a project and \<open>document.deleteOne()\<close>.\<close>

definition Project_save :: "store \<Rightarrow> oid \<Rightarrow> project \<Rightarrow> store" where
  "Project_save st i p = st\<lparr>projects := AList.update i p (projects st)\<rparr>"

definition Project_deleteOne :: "store \<Rightarrow> oid \<Rightarrow> store" where
  "Project_deleteOne st i = st\<lparr>projects := AList.delete i (projects st)\<rparr>"

definition Ticket_deleteOne :: "store \<Rightarrow> oid \<Rightarrow> store" where
  "Ticket_deleteOne st i = st\<lparr>tickets := AList.delete i (tickets st)\<rparr>"

section \<open>Project routes\<close>

text \<open>
  What \<open>toString()\<close> returns, and what the token's \<open>req.user.id\<close> is. An ObjectId
  prints as its 24 hexadecimal digits. A document prints as the rendering of its fields
  (a Mongoose document's \<open>toString\<close> is its \<open>inspect\<close>), which is never a string of 24
  hexadecimal digits.
\<close>

datatype printed = Hex oid | Inspect user

text \<open>
  A project after \<open>populate('teamMembers', 'name email')\<close> and
  \<open>populate('createdBy', 'name email')\<close>: each reference is replaced by the user
  document. A member whose document is gone is dropped from the array; an owner whose
  document is gone is \<open>null\<close>.
\<close>

record populated_project =
  pp_title :: string
  pp_createdBy :: "user option"
  pp_teamMembers :: "user list"

definition Project_populate :: "store \<Rightarrow> project \<Rightarrow> populated_project" where
  "Project_populate st p =
     \<lparr>pp_title = p_title p,
      pp_createdBy = User_findById st (createdBy p),
      pp_teamMembers = List.map_filter (User_findById st) (teamMembers p)\<rparr>"

text \<open>
  GET /api/projects/:id of part_002 lines 38-57. The check of line 49 runs on the
  populated project: \<open>teamMembers.includes(req.user.id)\<close> compares the id with each
  member document (\<open>==\<close> coerces the document through \<open>toString\<close>), and
  \<open>createdBy.toString()\<close> is the owner document's rendering, a TypeError (answered
  500) when the owner is \<open>null\<close>.
\<close>

definition get_project :: "store \<Rightarrow> oid \<Rightarrow> oid \<Rightarrow> error + populated_project" where
  "get_project st actor pid =
     (case Project_findById st pid of
        None \<Rightarrow> Inl NotFound
      | Some p \<Rightarrow>
          let project = Project_populate st p
          in if \<not> list_ex (\<lambda>member. Inspect member = Hex actor) (pp_teamMembers project)
             then (case pp_createdBy project of
                     None \<Rightarrow> Inl ServerError
                   | Some owner \<Rightarrow>
                       if Inspect owner \<noteq> Hex actor then Inl Forbidden else Inr project)
             else Inr project)"

text \<open>
  GET /api/projects/:id of part_001 lines 187-211: the same route with the check
  written on the identifiers of the populated documents,
  \<open>project.createdBy._id.toString() === req.user.id\<close> (a TypeError, answered 500, when
  the owner is \<open>null\<close>) and
  \<open>project.teamMembers.some(member => member._id.toString() === req.user.id)\<close>.
\<close>

definition get_project_a :: "store \<Rightarrow> oid \<Rightarrow> oid \<Rightarrow> error + populated_project" where
  "get_project_a st actor pid =
     (case Project_findById st pid of
        None \<Rightarrow> Inl NotFound
      | Some p \<Rightarrow>
          let project = Project_populate st p
          in (case pp_createdBy project of
                None \<Rightarrow> Inl ServerError
              | Some owner \<Rightarrow>
                  let isCreator = (Hex (uid owner) = Hex actor);
                      isTeamMember = list_ex (\<lambda>member. Hex (uid member) = Hex actor)
                                       (pp_teamMembers project)
                  in if \<not> isCreator \<and> \<not> isTeamMember then Inl Forbidden else Inr project))"

text \<open>
  GET /api/tickets/project/:projectId (part_003 lines 122-149): the tickets whose
  \<open>projectId\<close> is the requested one. The project is not populated here:
  \<open>createdBy.toString()\<close> is the owner's id and \<open>teamMembers.includes(id)\<close> is
  membership of the id in the array of member ids.
\<close>

definition get_project_tickets :: "store \<Rightarrow> oid \<Rightarrow> oid \<Rightarrow> error + ticket list" where
  "get_project_tickets st actor pid =
     (case Project_findById st pid of
        None \<Rightarrow> Inl NotFound
      | Some p \<Rightarrow>
          let isCreator = (createdBy p = actor);
              isTeamMember = (actor \<in> set (teamMembers p))
          in if \<not> isCreator \<and> \<not> isTeamMember then Inl Forbidden
             else Inr (filter (\<lambda>t. t_projectId t = pid) (map snd (tickets st))))"

text \<open>
  POST /api/projects/:id/members (part_001 lines 273-309, part_002 lines 103-132).
  The project's \<open>save()\<close> is taken to succeed: the project was valid when it was
  loaded and only its member array changes.
\<close>

definition add_member :: "store \<Rightarrow> oid \<Rightarrow> oid \<Rightarrow> string \<Rightarrow> (error + project) \<times> store" where
  "add_member st actor pid mail =
     (case Project_findById st pid of
        None \<Rightarrow> (Inl NotFound, st)
      | Some p \<Rightarrow>
          if createdBy p \<noteq> actor then (Inl Forbidden, st)
          else (case User_findOne st mail of
                  None \<Rightarrow> (Inl NotFound, st)
                | Some u \<Rightarrow>
                    if uid u \<in> set (teamMembers p) then (Inl BadRequest, st)
                    else let p' = p\<lparr>teamMembers := teamMembers p @ [uid u]\<rparr>
                         in (Inr p', Project_save st pid p')))"

text \<open>
  DELETE /api/projects/:id/members/:userId (part_001 lines 316-347, part_002 lines
  135-161).
\<close>

definition remove_member :: "store \<Rightarrow> oid \<Rightarrow> oid \<Rightarrow> oid \<Rightarrow> (error + project) \<times> store" where
  "remove_member st actor pid userId =
     (case Project_findById st pid of
        None \<Rightarrow> (Inl NotFound, st)
      | Some p \<Rightarrow>
          if createdBy p \<noteq> actor then (Inl Forbidden, st)
          else if userId = createdBy p then (Inl BadRequest, st)
          else let p' = p\<lparr>teamMembers := filter (\<lambda>member. member \<noteq> userId) (teamMembers p)\<rparr>
               in (Inr p', Project_save st pid p'))"

text \<open>
  DELETE /api/projects/:id (part_001 lines 246-266, part_002 lines 82-100): only the
  project document is removed.
\<close>

definition delete_project :: "store \<Rightarrow> oid \<Rightarrow> oid \<Rightarrow> (error + unit) \<times> store" where
  "delete_project st actor pid =
     (case Project_findById st pid of
        None \<Rightarrow> (Inl NotFound, st)
      | Some p \<Rightarrow>
          if createdBy p \<noteq> actor then (Inl Forbidden, st)
          else (Inr (), Project_deleteOne st pid))"

section \<open>Ticket schema\<close>

text \<open>
  A key of a JSON body whose value may be \<open>null\<close>: absent, \<open>null\<close>, or a value.
\<close>

datatype 'a nullable = Absent | Null | Val 'a

text \<open>
  JavaScript's truthiness of such a key, as in \<open>assignee || null\<close> and
  \<open>if (req.body.assignee)\<close>: only a value passes.
\<close>

fun truthy :: "'a nullable \<Rightarrow> 'a option" where
  "truthy Absent = None"
| "truthy Null = None"
| "truthy (Val v) = Some v"

text \<open>
  The JSON body of a ticket request, one key for each path of the ticket schema. A key
  absent from the body is \<open>None\<close>; a key that is present carries a well-formed value of
  the path's type. \<open>assignee\<close>, the schema's one optional reference, may also be
  \<open>null\<close>. A \<open>null\<close> on another path is outside this payload type, and so is
  \<open>_id\<close>. A key outside the schema is no path of the document and is never stored
  (\<open>dueDate\<close>, which the create route reads, is one).
\<close>

record ticket_body =
  b_projectId :: "oid option"
  b_title :: "string option"
  b_description :: "string option"
  b_priority :: "string option"
  b_status :: "string option"
  b_type :: "string option"
  b_tags :: "string list option"
  b_assignee :: "oid nullable"
  b_reporter :: "oid option"
  b_createdBy :: "oid option"
  b_comments :: "comment list option"
  b_createdAt :: "instant option"
  b_updatedAt :: "instant option"

text \<open>
  The code points that \<open>String.prototype.trim\<close> strips, in UTF-8: ECMAScript's
  WhiteSpace (U+0009, U+000B, U+000C, U+0020, U+00A0, U+FEFF and the other space
  separators U+1680, U+2000 to U+200A, U+202F, U+205F, U+3000) and LineTerminator
  (U+000A, U+000D, U+2028, U+2029).
\<close>

definition white_space :: "string list" where
  "white_space =
     [[CHR 0x09], [CHR 0x0A], [CHR 0x0B], [CHR 0x0C], [CHR 0x0D], [CHR 0x20],
      [CHR 0xC2, CHR 0xA0],
      [CHR 0xE1, CHR 0x9A, CHR 0x80],
      [CHR 0xE2, CHR 0x80, CHR 0x80], [CHR 0xE2, CHR 0x80, CHR 0x81],
      [CHR 0xE2, CHR 0x80, CHR 0x82], [CHR 0xE2, CHR 0x80, CHR 0x83],
      [CHR 0xE2, CHR 0x80, CHR 0x84], [CHR 0xE2, CHR 0x80, CHR 0x85],
      [CHR 0xE2, CHR 0x80, CHR 0x86], [CHR 0xE2, CHR 0x80, CHR 0x87],
      [CHR 0xE2, CHR 0x80, CHR 0x88], [CHR 0xE2, CHR 0x80, CHR 0x89],
      [CHR 0xE2, CHR 0x80, CHR 0x8A],
      [CHR 0xE2, CHR 0x80, CHR 0xA8], [CHR 0xE2, CHR 0x80, CHR 0xA9],
      [CHR 0xE2, CHR 0x80, CHR 0xAF],
      [CHR 0xE2, CHR 0x81, CHR 0x9F],
      [CHR 0xE3, CHR 0x80, CHR 0x80],
      [CHR 0xEF, CHR 0xBB, CHR 0xBF]]"

text \<open>Dropping, from the front of a string, every leading occurrence of one of the codes.\<close>

function strip :: "string list \<Rightarrow> string \<Rightarrow> string" where
  "strip ws s =
     (case find (\<lambda>w. w \<noteq> [] \<and> take (length w) s = w) ws of
        None \<Rightarrow> s
      | Some w \<Rightarrow> strip ws (drop (length w) s))"
  by pat_completeness auto
termination
proof (relation "measure (\<lambda>(ws, s). length s)", goal_cases)
  case 1
  show ?case by simp
next
  case (2 ws s w)
  have found: "P x" if "find P xs = Some x" for P :: "string \<Rightarrow> bool" and xs x
    using that by (induction xs) (auto split: if_splits)
  from found [OF 2] have "w \<noteq> [] \<and> take (length w) s = w" .
  then have w: "w \<noteq> []" and t: "take (length w) s = w"
    by (rule conjunct1, rule conjunct2)
  have "length (take (length w) s) = min (length w) (length s)"
    by (simp only: length_take min.commute)
  with t have "length w = min (length w) (length s)"
    by (simp only:)
  moreover from w have "0 < length w"
    by simp
  ultimately have "length s - length w < length s"
    by linarith
  then show ?case
    by simp
qed

text \<open>
  The schema's \<open>trim: true\<close> setter, \<open>String.prototype.trim\<close>: white space is dropped
  at both ends.
\<close>

definition trim :: "string \<Rightarrow> string" where
  "trim s = rev (strip (map rev white_space) (rev (strip white_space s)))"

text \<open>
  Validation on \<open>save()\<close>: \<open>required\<close> on a string rejects the empty string as it
  rejects a missing value, and an enumerated field must be one of the schema's values.
  \<open>reporter\<close>, \<open>projectId\<close> and \<open>createdBy\<close> are required too; every document built
  below has them.
\<close>

definition validate_ticket :: "ticket \<Rightarrow> bool" where
  "validate_ticket t \<longleftrightarrow>
     t_title t \<noteq> [] \<and> t_description t \<noteq> [] \<and>
     t_priority t \<in> set [''Low'', ''Medium'', ''High''] \<and>
     t_status t \<in> set [''To Do'', ''In Progress'', ''Done''] \<and>
     t_type t \<in> set [''Bug'', ''Feature'', ''Task''] \<and>
     list_all (\<lambda>c. c_text c \<noteq> []) (t_comments t)"

text \<open>
  \<open>ticket.save()\<close>: validate, run the \<open>pre('save')\<close> hook of models/Ticket.js lines
  77-80, which sets \<open>updatedAt\<close> whatever it held, and write the document. \<open>None\<close>
  is the rejected promise (a ValidationError).
\<close>

definition Ticket_save :: "store \<Rightarrow> instant \<Rightarrow> oid \<Rightarrow> ticket \<Rightarrow> (ticket \<times> store) option" where
  "Ticket_save st now i t =
     (if validate_ticket t
      then let t' = t\<lparr>t_updatedAt := now\<rparr>
           in Some (t', st\<lparr>tickets := AList.update i t' (tickets st)\<rparr>)
      else None)"

text \<open>
  \<open>new Ticket({...})\<close> as the create route of part_003 lines 56-68 calls it, with
  the keys the route names and no others: a missing title or description stays empty
  (and fails \<open>required\<close>), a missing enumerated field or tag list takes the schema's
  default, the comment log is empty and both instants are the schema's \<open>Date.now\<close>.
\<close>

definition new_Ticket ::
  "instant \<Rightarrow> ticket_body \<Rightarrow> oid option \<Rightarrow> oid \<Rightarrow> oid \<Rightarrow> oid \<Rightarrow> ticket" where
  "new_Ticket now body assigneeId reporterId projectId actor =
     \<lparr>t_title = (case b_title body of None \<Rightarrow> [] | Some s \<Rightarrow> trim s),
      t_description = (case b_description body of None \<Rightarrow> [] | Some s \<Rightarrow> s),
      t_priority = (case b_priority body of None \<Rightarrow> ''Medium'' | Some s \<Rightarrow> s),
      t_status = (case b_status body of None \<Rightarrow> ''To Do'' | Some s \<Rightarrow> s),
      t_type = (case b_type body of None \<Rightarrow> ''Task'' | Some s \<Rightarrow> s),
      t_tags = (case b_tags body of None \<Rightarrow> [] | Some ts \<Rightarrow> map trim ts),
      t_assignee = assigneeId,
      t_reporter = reporterId,
      t_projectId = projectId,
      t_createdBy = actor,
      t_comments = [],
      t_createdAt = now,
      t_updatedAt = now\<rparr>"

text \<open>
  \<open>Object.assign(ticket, req.body)\<close>: every key of the body is assigned to the
  document, through the schema's setters. A \<open>null\<close> assignee unassigns the ticket.
\<close>

definition Object_assign :: "ticket \<Rightarrow> ticket_body \<Rightarrow> ticket" where
  "Object_assign t body =
     t\<lparr>t_projectId := (case b_projectId body of None \<Rightarrow> t_projectId t | Some v \<Rightarrow> v),
       t_title := (case b_title body of None \<Rightarrow> t_title t | Some v \<Rightarrow> trim v),
       t_description := (case b_description body of None \<Rightarrow> t_description t | Some v \<Rightarrow> v),
       t_priority := (case b_priority body of None \<Rightarrow> t_priority t | Some v \<Rightarrow> v),
       t_status := (case b_status body of None \<Rightarrow> t_status t | Some v \<Rightarrow> v),
       t_type := (case b_type body of None \<Rightarrow> t_type t | Some v \<Rightarrow> v),
       t_tags := (case b_tags body of None \<Rightarrow> t_tags t | Some v \<Rightarrow> map trim v),
       t_assignee := (case b_assignee body of
                        Absent \<Rightarrow> t_assignee t | Null \<Rightarrow> None | Val v \<Rightarrow> Some v),
       t_reporter := (case b_reporter body of None \<Rightarrow> t_reporter t | Some v \<Rightarrow> v),
       t_createdBy := (case b_createdBy body of None \<Rightarrow> t_createdBy t | Some v \<Rightarrow> v),
       t_comments := (case b_comments body of None \<Rightarrow> t_comments t | Some v \<Rightarrow> v),
       t_createdAt := (case b_createdAt body of None \<Rightarrow> t_createdAt t | Some v \<Rightarrow> v),
       t_updatedAt := (case b_updatedAt body of None \<Rightarrow> t_updatedAt t | Some v \<Rightarrow> v)\<rparr>"

section \<open>Ticket routes (part_003, first file)\<close>

text \<open>
  The block the create and update routes repeat for an assignee or a reporter
  (part_003 lines 37-44, 47-54, 216-222, 226-232): the user must exist (else 404) and be
  a team member or the project's creator (else 400). \<open>None\<close> lets the request go on.
\<close>

definition check_principal :: "store \<Rightarrow> project \<Rightarrow> oid \<Rightarrow> error option" where
  "check_principal st p x =
     (case User_findById st x of
        None \<Rightarrow> Some NotFound
      | Some u \<Rightarrow>
          if x \<notin> set (teamMembers p) \<and> createdBy p \<noteq> x then Some BadRequest
          else None)"

text \<open>
  POST /api/tickets (part_003 lines 13-83). \<open>newId\<close> is the identifier the driver
  gives the new document. \<open>Project.findById(undefined)\<close> finds nothing.
\<close>

definition create_ticket ::
  "store \<Rightarrow> instant \<Rightarrow> oid \<Rightarrow> oid \<Rightarrow> ticket_body \<Rightarrow> (error + ticket) \<times> store" where
  "create_ticket st now newId actor body =
     (case b_projectId body of
        None \<Rightarrow> (Inl NotFound, st)
      | Some projectId \<Rightarrow>
     (case Project_findById st projectId of
        None \<Rightarrow> (Inl NotFound, st)
      | Some p \<Rightarrow>
          let isCreator = (createdBy p = actor);
              isTeamMember = (actor \<in> set (teamMembers p))
          in if \<not> isCreator \<and> \<not> isTeamMember then (Inl Forbidden, st)
             else
               let reporterId = (case b_reporter body of None \<Rightarrow> actor | Some r \<Rightarrow> r);
                   assigneeId = truthy (b_assignee body)
               in (case Option.bind assigneeId (check_principal st p) of
                     Some e \<Rightarrow> (Inl e, st)
                   | None \<Rightarrow>
                       (case check_principal st p reporterId of
                          Some e \<Rightarrow> (Inl e, st)
                        | None \<Rightarrow>
                            (case Ticket_save st now newId
                                    (new_Ticket now body assigneeId reporterId projectId actor) of
                               None \<Rightarrow> (Inl BadRequest, st)
                             | Some (t, st') \<Rightarrow> (Inr t, st'))))))"

text \<open>
  GET /api/tickets/:id (part_003 lines 156-184). The project is dereferenced without a
  null check: when it is absent, \<open>project.createdBy\<close> throws a TypeError and the
  \<open>catch\<close> block answers 500.
\<close>

definition get_ticket :: "store \<Rightarrow> oid \<Rightarrow> oid \<Rightarrow> error + ticket" where
  "get_ticket st actor tid =
     (case Ticket_findById st tid of
        None \<Rightarrow> Inl NotFound
      | Some t \<Rightarrow>
          (case Project_findById st (t_projectId t) of
             None \<Rightarrow> Inl ServerError
           | Some p \<Rightarrow>
               let isCreator = (createdBy p = actor);
                   isTeamMember = (actor \<in> set (teamMembers p))
               in if \<not> isCreator \<and> \<not> isTeamMember then Inl Forbidden else Inr t))"

text \<open>
  PUT /api/tickets/:id (part_003 lines 191-251). The body of the response is the saved
  document; the \<open>populate\<close> calls before \<open>res.json\<close> only replace references by
  name and email, or title, in the JSON.
\<close>

definition update_ticket ::
  "store \<Rightarrow> instant \<Rightarrow> oid \<Rightarrow> oid \<Rightarrow> ticket_body \<Rightarrow> (error + ticket) \<times> store" where
  "update_ticket st now actor tid body =
     (case Ticket_findById st tid of
        None \<Rightarrow> (Inl NotFound, st)
      | Some t \<Rightarrow>
          (case Project_findById st (t_projectId t) of
             None \<Rightarrow> (Inl NotFound, st)
           | Some p \<Rightarrow>
               let isProjectCreator = (createdBy p = actor);
                   isProjectTeamMember = (actor \<in> set (teamMembers p));
                   isTicketCreator = (t_createdBy t = actor)
               in if \<not> isProjectCreator \<and> \<not> isProjectTeamMember \<and> \<not> isTicketCreator
                  then (Inl Forbidden, st)
                  else
                    (case Option.bind (truthy (b_assignee body)) (check_principal st p) of
                       Some e \<Rightarrow> (Inl e, st)
                     | None \<Rightarrow>
                         (case Option.bind (b_reporter body) (check_principal st p) of
                            Some e \<Rightarrow> (Inl e, st)
                          | None \<Rightarrow>
                              (case Ticket_save st now tid (Object_assign t body) of
                                 None \<Rightarrow> (Inl BadRequest, st)
                               | Some (t', st') \<Rightarrow> (Inr t', st'))))))"

text \<open>DELETE /api/tickets/:id (part_003 lines 258-285).\<close>

definition delete_ticket :: "store \<Rightarrow> oid \<Rightarrow> oid \<Rightarrow> (error + unit) \<times> store" where
  "delete_ticket st actor tid =
     (case Ticket_findById st tid of
        None \<Rightarrow> (Inl NotFound, st)
      | Some t \<Rightarrow>
          (case Project_findById st (t_projectId t) of
             None \<Rightarrow> (Inl NotFound, st)
           | Some p \<Rightarrow>
               let isProjectCreator = (createdBy p = actor);
                   isTicketCreator = (t_createdBy t = actor)
               in if \<not> isProjectCreator \<and> \<not> isTicketCreator then (Inl Forbidden, st)
                  else (Inr (), Ticket_deleteOne st tid)))"

text \<open>
  A comment as the comment route returns it, after
  \<open>populate('comments.author', 'name email')\<close>: the author reference is replaced by the
  user document, or by null when no such user exists.
\<close>

record populated_comment =
  pc_author :: "user option"
  pc_text :: string
  pc_timestamp :: instant

definition populate_comment :: "store \<Rightarrow> comment \<Rightarrow> populated_comment" where
  "populate_comment st c =
     \<lparr>pc_author = User_findById st (c_author c), pc_text = c_text c,
      pc_timestamp = c_timestamp c\<rparr>"

text \<open>
  POST /api/tickets/:id/comments (part_003 lines 292-338). \<open>now\<close> is the value of
  \<open>new Date()\<close>. A missing text is the empty text for the schema's \<open>required\<close>. After the
  save the ticket is read again and the last element of its comment array is the body of
  the 201 response: \<open>None\<close> is JavaScript's \<open>undefined\<close>, the element of an empty array.
  Were the ticket gone at the second read, the TypeError would reach the catch block (400).
\<close>

definition add_comment ::
  "store \<Rightarrow> instant \<Rightarrow> oid \<Rightarrow> oid \<Rightarrow> string option
     \<Rightarrow> (error + populated_comment option) \<times> store" where
  "add_comment st now actor tid txt =
     (case Ticket_findById st tid of
        None \<Rightarrow> (Inl NotFound, st)
      | Some t \<Rightarrow>
          (case Project_findById st (t_projectId t) of
             None \<Rightarrow> (Inl NotFound, st)
           | Some p \<Rightarrow>
               let isProjectCreator = (createdBy p = actor);
                   isProjectTeamMember = (actor \<in> set (teamMembers p))
               in if \<not> isProjectCreator \<and> \<not> isProjectTeamMember then (Inl Forbidden, st)
                  else
                    let newComment = \<lparr>c_author = actor,
                                       c_text = (case txt of None \<Rightarrow> [] | Some s \<Rightarrow> s),
                                       c_timestamp = now\<rparr>
                    in (case Ticket_save st now tid
                               (t\<lparr>t_comments := t_comments t @ [newComment]\<rparr>) of
                          None \<Rightarrow> (Inl BadRequest, st)
                        | Some (t', st') \<Rightarrow>
                            (case Ticket_findById st' tid of
                               None \<Rightarrow> (Inl BadRequest, st')
                             | Some populatedTicket \<Rightarrow>
                                 (case rev (t_comments populatedTicket) of
                                    [] \<Rightarrow> (Inr None, st')
                                  | latestComment # _ \<Rightarrow>
                                      (Inr (Some (populate_comment st' latestComment)), st'))))))"

section \<open>Ticket routes (part_003, second file, and routes/tickets.js)\<close>

text \<open>
  PUT /api/tickets/:id of part_003 lines 498-544. The project is not checked for null
  (a TypeError reaches the catch block, which answers 400), and the access check is the
  project's alone.
\<close>

definition update_ticket_b ::
  "store \<Rightarrow> instant \<Rightarrow> oid \<Rightarrow> oid \<Rightarrow> ticket_body \<Rightarrow> (error + ticket) \<times> store" where
  "update_ticket_b st now actor tid body =
     (case Ticket_findById st tid of
        None \<Rightarrow> (Inl NotFound, st)
      | Some t \<Rightarrow>
          (case Project_findById st (t_projectId t) of
             None \<Rightarrow> (Inl BadRequest, st)
           | Some p \<Rightarrow>
               if actor \<notin> set (teamMembers p) \<and> createdBy p \<noteq> actor then (Inl Forbidden, st)
               else
                 (case Option.bind (truthy (b_assignee body)) (check_principal st p) of
                    Some e \<Rightarrow> (Inl e, st)
                  | None \<Rightarrow>
                      (case Option.bind (b_reporter body) (check_principal st p) of
                         Some e \<Rightarrow> (Inl e, st)
                       | None \<Rightarrow>
                           (case Ticket_save st now tid (Object_assign t body) of
                              None \<Rightarrow> (Inl BadRequest, st)
                            | Some (t', st') \<Rightarrow> (Inr t', st'))))))"

text \<open>PUT /api/tickets/:id of routes/tickets.js lines 80-101: no principal checks.\<close>

definition update_ticket_c ::
  "store \<Rightarrow> instant \<Rightarrow> oid \<Rightarrow> oid \<Rightarrow> ticket_body \<Rightarrow> (error + ticket) \<times> store" where
  "update_ticket_c st now actor tid body =
     (case Ticket_findById st tid of
        None \<Rightarrow> (Inl NotFound, st)
      | Some t \<Rightarrow>
          (case Project_findById st (t_projectId t) of
             None \<Rightarrow> (Inl BadRequest, st)
           | Some p \<Rightarrow>
               if actor \<notin> set (teamMembers p) \<and> createdBy p \<noteq> actor then (Inl Forbidden, st)
               else
                 (case Ticket_save st now tid (Object_assign t body) of
                    None \<Rightarrow> (Inl BadRequest, st)
                  | Some (t', st') \<Rightarrow> (Inr t', st'))))"

text \<open>
  DELETE /api/tickets/:id of routes/tickets.js lines 104-124 and part_003 lines 547-568:
  an absent project is a TypeError, answered 500.
\<close>

definition delete_ticket_c :: "store \<Rightarrow> oid \<Rightarrow> oid \<Rightarrow> (error + unit) \<times> store" where
  "delete_ticket_c st actor tid =
     (case Ticket_findById st tid of
        None \<Rightarrow> (Inl NotFound, st)
      | Some t \<Rightarrow>
          (case Project_findById st (t_projectId t) of
             None \<Rightarrow> (Inl ServerError, st)
           | Some p \<Rightarrow>
               if createdBy p \<noteq> actor \<and> t_createdBy t \<noteq> actor then (Inl Forbidden, st)
               else (Inr (), Ticket_deleteOne st tid)))"

text \<open>GET /api/tickets/:id of routes/tickets.js lines 56-77 and part_003 lines 471-495.\<close>

definition get_ticket_c :: "store \<Rightarrow> oid \<Rightarrow> oid \<Rightarrow> error + ticket" where
  "get_ticket_c st actor tid =
     (case Ticket_findById st tid of
        None \<Rightarrow> Inl NotFound
      | Some t \<Rightarrow>
          (case Project_findById st (t_projectId t) of
             None \<Rightarrow> Inl ServerError
           | Some p \<Rightarrow>
               if actor \<notin> set (teamMembers p) \<and> createdBy p \<noteq> actor then Inl Forbidden
               else Inr t))"

section \<open>Event relay\<close>











section \<open>Sequences of requests and sample data\<close>

text \<open>
  Comment requests served one after the other on one ticket, each with the clock reading,
  the actor and the text of its request; the first failing request stops the run.
\<close>

fun add_comments ::
  "store \<Rightarrow> oid \<Rightarrow> (instant \<times> oid \<times> string option) list \<Rightarrow> error + store" where
  "add_comments st tid [] = Inr st"
| "add_comments st tid ((now, actor, txt) # rs) =
     (case add_comment st now actor tid txt of
        (Inl e, _) \<Rightarrow> Inl e
      | (Inr _, st') \<Rightarrow> add_comments st' tid rs)"

text \<open>The comment a request leaves in the log.\<close>

definition comment_of :: "instant \<times> oid \<times> string option \<Rightarrow> comment" where
  "comment_of r =
     \<lparr>c_author = fst (snd r),
      c_text = (case snd (snd r) of None \<Rightarrow> [] | Some s \<Rightarrow> s),
      c_timestamp = fst r\<rparr>"

text \<open>
  A store with three users, two projects (project 10 with owner 1 and members 1 and 2,
  project 11 with owner 2), a ticket of project 10 filed by user 3, who is no longer on
  the team, and a ticket whose project 12 is gone.
\<close>

definition sample_project :: project where
  "sample_project = \<lparr>p_title = ''Sprint'', createdBy = 1, teamMembers = [1, 2]\<rparr>"

definition backlog_project :: project where
  "backlog_project = \<lparr>p_title = ''Backlog'', createdBy = 2, teamMembers = [2]\<rparr>"

definition sample_ticket :: ticket where
  "sample_ticket =
     \<lparr>t_title = ''Crash on login'', t_description = ''Stack trace attached'',
      t_priority = ''Medium'', t_status = ''To Do'', t_type = ''Task'', t_tags = [],
      t_assignee = None, t_reporter = 2, t_projectId = 10, t_createdBy = 3,
      t_comments = [], t_createdAt = 1000, t_updatedAt = 1000\<rparr>"

definition orphan_ticket :: ticket where
  "orphan_ticket = sample_ticket\<lparr>t_projectId := 12, t_createdBy := 1\<rparr>"

definition sample_store :: store where
  "sample_store =
     \<lparr>users = [\<lparr>uid = 1, name = ''Ann'', email = ''ann@example.org''\<rparr>,
               \<lparr>uid = 2, name = ''Bob'', email = ''bob@example.org''\<rparr>,
               \<lparr>uid = 3, name = ''Cy'', email = ''cy@example.org''\<rparr>],
      projects = [(10, sample_project), (11, backlog_project)],
      tickets = [(100, sample_ticket), (101, orphan_ticket)]\<rparr>"

definition empty_body :: ticket_body where
  "empty_body =
     \<lparr>b_projectId = None, b_title = None, b_description = None, b_priority = None,
      b_status = None, b_type = None, b_tags = None, b_assignee = Absent, b_reporter = None,
      b_createdBy = None, b_comments = None, b_createdAt = None, b_updatedAt = None\<rparr>"

text \<open>
  An update payload that names another project and another creator, one that overwrites
  the title (with a no-break space in front), the comment log and both instants and
  nulls the assignee, and the ticket the first turns the sample ticket into.
\<close>

definition reparenting_body :: ticket_body where
  "reparenting_body =
     empty_body\<lparr>b_projectId := Some 11, b_createdBy := Some 2, b_status := Some ''Done''\<rparr>"

definition overwriting_body :: ticket_body where
  "overwriting_body =
     empty_body\<lparr>b_title := Some (CHR 0xC2 # CHR 0xA0 # ''Renamed ''), b_assignee := Null,
                b_comments := Some [], b_createdAt := Some 5, b_updatedAt := Some 7\<rparr>"

definition reparented_ticket :: ticket where
  "reparented_ticket = sample_ticket\<lparr>t_projectId := 11, t_createdBy := 2, t_status := ''Done''\<rparr>"

text \<open>
  A create payload for the sample project, without assignee or reporter, and three comment
  requests by members of the sample project.
\<close>

definition filing_body :: ticket_body where
  "filing_body =
     empty_body\<lparr>b_projectId := Some 10, b_title := Some ''Add search'',
                b_description := Some ''Full text''\<rparr>"

text \<open>
  The first ticket of project 11, and the update payload that only names an assignee.
\<close>

definition first_ticket_body :: ticket_body where
  "first_ticket_body = filing_body\<lparr>b_projectId := Some 11\<rparr>"

definition reassign_body :: "oid \<Rightarrow> ticket_body" where
  "reassign_body a = empty_body\<lparr>b_assignee := Val a\<rparr>"

definition sample_requests :: "(instant \<times> oid \<times> string option) list" where
  "sample_requests = [(3000, 1, Some ''Looking into it''), (3000, 2, Some ''Thanks''),
                      (3005, 1, Some ''Fixed'')]"



section \<open>Store lemmas\<close>

lemma Project_findById_save [simp]:
  "Project_findById (Project_save st i p) j = (if j = i then Some p else Project_findById st j)"
  by (simp add: Project_findById_def Project_save_def update_conv')

lemma Project_findById_delete [simp]:
  "Project_findById (Project_deleteOne st i) j = (if j = i then None else Project_findById st j)"
  by (simp add: Project_findById_def Project_deleteOne_def delete_conv')

lemma find_email: "find (\<lambda>u. email u = e) us = Some u \<Longrightarrow> email u = e \<and> u \<in> set us"
  by (auto simp: find_Some_iff)

lemma filter_absent: "x \<notin> set xs \<Longrightarrow> filter (\<lambda>m. m \<noteq> x) xs = xs"
  by (induction xs) auto

lemma sample_project_found: "Project_findById sample_store 10 = Some sample_project"
  by (simp add: Project_findById_def sample_store_def)

lemma sample_ticket_found: "Ticket_findById sample_store 100 = Some sample_ticket"
  by (simp add: Ticket_findById_def sample_store_def)

lemma orphan_ticket_found: "Ticket_findById sample_store 101 = Some orphan_ticket"
  by (simp add: Ticket_findById_def sample_store_def)

lemma sample_ticket_project:
  "Project_findById sample_store (t_projectId sample_ticket) = Some sample_project"
  by (simp add: sample_ticket_def sample_project_found)

lemma sample_ticket_valid: "validate_ticket sample_ticket"
  by (simp add: validate_ticket_def sample_ticket_def)

lemma sample_users:
  "User_findById sample_store 1 = Some \<lparr>uid = 1, name = ''Ann'', email = ''ann@example.org''\<rparr>"
  "User_findById sample_store 2 = Some \<lparr>uid = 2, name = ''Bob'', email = ''bob@example.org''\<rparr>"
  "User_findById sample_store 3 = Some \<lparr>uid = 3, name = ''Cy'', email = ''cy@example.org''\<rparr>"
  "User_findById sample_store 4 = None"
  by (simp_all add: User_findById_def sample_store_def)


section \<open>Project access\<close>

lemma sample_tickets_of_project:
  "filter (\<lambda>t. t_projectId t = 10) (map snd (tickets sample_store)) = [sample_ticket]"
  by (simp add: sample_store_def sample_ticket_def orphan_ticket_def)

lemma sample_project_populated:
  "Project_populate sample_store sample_project =
     \<lparr>pp_title = ''Sprint'',
      pp_createdBy = Some \<lparr>uid = 1, name = ''Ann'', email = ''ann@example.org''\<rparr>,
      pp_teamMembers = [\<lparr>uid = 1, name = ''Ann'', email = ''ann@example.org''\<rparr>,
                        \<lparr>uid = 2, name = ''Bob'', email = ''bob@example.org''\<rparr>]\<rparr>"
  by (simp add: Project_populate_def sample_project_def User_findById_def sample_store_def
      List.map_filter_simps)

text \<open>
  The tickets-of-a-project route grants exactly the owner and the members, and answers
  403 to anyone else.
\<close>

lemma get_project_tickets_access:
  assumes "Project_findById st pid = Some p"
  shows "((\<exists>ts. get_project_tickets st actor pid = Inr ts) \<longleftrightarrow>
            actor = createdBy p \<or> actor \<in> set (teamMembers p))
       \<and> (\<not> (actor = createdBy p \<or> actor \<in> set (teamMembers p)) \<longrightarrow>
            get_project_tickets st actor pid = Inl Forbidden)"
  using assms by (auto simp: get_project_tickets_def Let_def)

text \<open>
  The project route of part_002 grants nobody: a stored project is answered 403, or 500
  when the owner's user document is gone.
\<close>

lemma get_project_never_grants:
  assumes "Project_findById st pid = Some p"
  shows "get_project st actor pid =
           (if User_findById st (createdBy p) = None then Inl ServerError else Inl Forbidden)"
  using assms
  by (auto simp: get_project_def Let_def Project_populate_def list_ex_iff split: option.splits)

text \<open>
  C1. The claim holds of the tickets-of-a-project route of part_003 and of the project
  route of part_001, and fails on the project route of part_002, which checks the
  populated documents. In the sample store project 10 has owner 1 and members 1 and 2:
  the route of part_002 answers 403 to the owner and to member 2, where the claim grants
  access; the route of part_001 grants both and answers 403 to user 3; the tickets
  route grants the owner and answers 403 to user 3. When the owner's user document is
  gone, the route of part_001 answers 500 to a member.
\<close>

theorem project_route_denies_owner:
  "Project_findById sample_store 10 = Some sample_project
   \<and> createdBy sample_project = 1
   \<and> teamMembers sample_project = [1, 2]
   \<and> get_project sample_store 1 10 = Inl Forbidden
   \<and> get_project sample_store 2 10 = Inl Forbidden
   \<and> http_status Forbidden = 403
   \<and> get_project_a sample_store 1 10 = Inr (Project_populate sample_store sample_project)
   \<and> get_project_a sample_store 2 10 = Inr (Project_populate sample_store sample_project)
   \<and> get_project_a sample_store 3 10 = Inl Forbidden
   \<and> get_project_tickets sample_store 1 10 = Inr [sample_ticket]
   \<and> get_project_tickets sample_store 3 10 = Inl Forbidden
   \<and> get_project_a (sample_store\<lparr>users := []\<rparr>) 2 10 = Inl ServerError"
proof -
  have o: "createdBy sample_project = 1" and m: "teamMembers sample_project = [1, 2]"
    by (simp_all add: sample_project_def)
  have b: "get_project sample_store 1 10 = Inl Forbidden"
    "get_project sample_store 2 10 = Inl Forbidden"
    by (simp_all add: get_project_def sample_project_found sample_project_populated)
  have a: "get_project_a sample_store 1 10 = Inr (Project_populate sample_store sample_project)"
    "get_project_a sample_store 2 10 = Inr (Project_populate sample_store sample_project)"
    "get_project_a sample_store 3 10 = Inl Forbidden"
    by (simp_all add: get_project_a_def sample_project_found sample_project_populated)
  have t: "get_project_tickets sample_store 1 10 = Inr [sample_ticket]"
    "get_project_tickets sample_store 3 10 = Inl Forbidden"
    by (simp_all add: get_project_tickets_def sample_project_found o m sample_tickets_of_project)
  have g: "get_project_a (sample_store\<lparr>users := []\<rparr>) 2 10 = Inl ServerError"
    by (simp add: get_project_a_def Project_findById_def Project_populate_def User_findById_def
        sample_store_def)
  from sample_project_found o m b a t g show ?thesis
    by simp
qed

section \<open>Team membership\<close>

text \<open>
  C5. Whenever the target of remove-member is the project's \<open>createdBy\<close>, the owner's
  request (the owner is the only actor allowed to remove members, and may name
  themself) is answered 400 and the store is unchanged. For any other target the
  request succeeds: the stored member list is the old one without the target, which is
  the old list itself when the target was not a member, and a second removal succeeds
  again with the same list.
\<close>

theorem remove_member_owner_protected:
  assumes "Project_findById st pid = Some p" and "createdBy p = actor"
  shows "(userId = createdBy p \<longrightarrow>
            remove_member st actor pid userId = (Inl BadRequest, st)
            \<and> http_status BadRequest = 400)
       \<and> (userId \<noteq> createdBy p \<longrightarrow>
            (\<exists>p' st'. remove_member st actor pid userId = (Inr p', st')
               \<and> Project_findById st' pid = Some p'
               \<and> teamMembers p' = filter (\<lambda>m. m \<noteq> userId) (teamMembers p)
               \<and> createdBy p' = createdBy p
               \<and> (userId \<notin> set (teamMembers p) \<longrightarrow> p' = p)
               \<and> fst (remove_member st' actor pid userId) = Inr p'))"
  using assms by (auto simp: remove_member_def Let_def filter_absent)

theorem remove_member_owner_protected_witness:
  "Project_findById sample_store 10 = Some sample_project
   \<and> createdBy sample_project = 1
   \<and> remove_member sample_store 1 10 1 = (Inl BadRequest, sample_store)
   \<and> (\<exists>p' st'. remove_member sample_store 1 10 3 = (Inr p', st') \<and> p' = sample_project)
   \<and> (\<exists>p' st'. remove_member sample_store 1 10 2 = (Inr p', st') \<and> teamMembers p' = [1])"
proof -
  have c: "createdBy sample_project = 1"
    by (simp add: sample_project_def)
  show ?thesis
    using c remove_member_owner_protected [OF sample_project_found c, of 1]
      remove_member_owner_protected [OF sample_project_found c, of 3]
      remove_member_owner_protected [OF sample_project_found c, of 2]
    by (auto simp: sample_project_def sample_project_found)
qed

text \<open>
  C6. Add-member looks the target up by email. When no user has that email the owner's
  request is answered 404; when the user found is already in the member list it is
  answered 400 and the store, hence the member list and its length, is unchanged;
  otherwise the user's identifier is appended to the member list, which is stored.
\<close>

theorem add_member_by_email:
  assumes "Project_findById st pid = Some p" and "createdBy p = actor"
  shows "(User_findOne st mail = None \<longrightarrow>
            (\<forall>u \<in> set (users st). email u \<noteq> mail)
            \<and> add_member st actor pid mail = (Inl NotFound, st) \<and> http_status NotFound = 404)
       \<and> (\<forall>u. User_findOne st mail = Some u \<longrightarrow>
            u \<in> set (users st) \<and> email u = mail
            \<and> (uid u \<in> set (teamMembers p) \<longrightarrow>
                 add_member st actor pid mail = (Inl BadRequest, st)
                 \<and> http_status BadRequest = 400)
            \<and> (uid u \<notin> set (teamMembers p) \<longrightarrow>
                 (\<exists>p' st'. add_member st actor pid mail = (Inr p', st')
                    \<and> Project_findById st' pid = Some p'
                    \<and> teamMembers p' = teamMembers p @ [uid u])))"
proof (cases "User_findOne st mail")
  case None
  then have "\<forall>u \<in> set (users st). email u \<noteq> mail"
    by (simp add: User_findOne_def find_None_iff)
  with None assms show ?thesis
    by (simp add: add_member_def)
next
  case (Some u)
  then have "u \<in> set (users st) \<and> email u = mail"
    by (auto simp: User_findOne_def dest: find_email)
  with Some assms show ?thesis
    by (simp add: add_member_def Let_def)
qed

theorem add_member_by_email_witness:
  "Project_findById sample_store 10 = Some sample_project
   \<and> createdBy sample_project = 1
   \<and> add_member sample_store 1 10 ''dee@example.org'' = (Inl NotFound, sample_store)
   \<and> add_member sample_store 1 10 ''bob@example.org'' = (Inl BadRequest, sample_store)
   \<and> (\<exists>p' st'. add_member sample_store 1 10 ''cy@example.org'' = (Inr p', st')
         \<and> teamMembers p' = [1, 2, 3])"
proof -
  have c: "createdBy sample_project = 1"
    by (simp add: sample_project_def)
  have n: "User_findOne sample_store ''dee@example.org'' = None"
    by (simp add: User_findOne_def sample_store_def)
  have b: "User_findOne sample_store ''bob@example.org''
             = Some \<lparr>uid = 2, name = ''Bob'', email = ''bob@example.org''\<rparr>"
    by (simp add: User_findOne_def sample_store_def)
  have y: "User_findOne sample_store ''cy@example.org''
             = Some \<lparr>uid = 3, name = ''Cy'', email = ''cy@example.org''\<rparr>"
    by (simp add: User_findOne_def sample_store_def)
  show ?thesis
    using c n b y
      add_member_by_email [OF sample_project_found c, of "''dee@example.org''"]
      add_member_by_email [OF sample_project_found c, of "''bob@example.org''"]
      add_member_by_email [OF sample_project_found c, of "''cy@example.org''"]
    by (auto simp: sample_project_def sample_project_found)
qed

section \<open>Fetching a ticket whose project is gone\<close>

text \<open>
  C10. Deleting a project leaves the ticket collection as it was. For every stored
  ticket whose project is absent, fetching the ticket by id is answered 500, neither 404
  nor the ticket; when the project is present the answer is the ticket or 403, never
  500.
\<close>

theorem get_ticket_needs_project:
  assumes "Ticket_findById st tid = Some t"
  shows "(Project_findById st (t_projectId t) = None \<longrightarrow>
            get_ticket st actor tid = Inl ServerError
            \<and> get_ticket_c st actor tid = Inl ServerError
            \<and> http_status ServerError = 500)
       \<and> (Project_findById st (t_projectId t) \<noteq> None \<longrightarrow>
            get_ticket st actor tid \<in> {Inr t, Inl Forbidden}
            \<and> get_ticket_c st actor tid \<in> {Inr t, Inl Forbidden})
       \<and> (\<forall>owner st'. delete_project st owner (t_projectId t) = (Inr (), st') \<longrightarrow>
            tickets st' = tickets st
            \<and> Project_findById st' (t_projectId t) = None
            \<and> get_ticket st' actor tid = Inl ServerError
            \<and> get_ticket_c st' actor tid = Inl ServerError)"
  using assms
  by (auto simp: get_ticket_def get_ticket_c_def delete_project_def Let_def
        Ticket_findById_def Project_deleteOne_def Project_findById_def delete_conv'
      split: option.splits if_splits)

theorem get_ticket_needs_project_witness:
  "Ticket_findById sample_store 101 = Some orphan_ticket
   \<and> Project_findById sample_store (t_projectId orphan_ticket) = None
   \<and> get_ticket sample_store 1 101 = Inl ServerError
   \<and> get_ticket_c sample_store 1 101 = Inl ServerError
   \<and> Ticket_findById sample_store 100 = Some sample_ticket
   \<and> delete_project sample_store 1 (t_projectId sample_ticket)
       = (Inr (), Project_deleteOne sample_store 10)
   \<and> get_ticket (Project_deleteOne sample_store 10) 1 100 = Inl ServerError"
proof -
  have o: "Project_findById sample_store (t_projectId orphan_ticket) = None"
    by (simp add: Project_findById_def sample_store_def orphan_ticket_def sample_ticket_def)
  have d: "delete_project sample_store 1 (t_projectId sample_ticket)
             = (Inr (), Project_deleteOne sample_store 10)"
    by (simp add: delete_project_def sample_ticket_def sample_project_found sample_project_def)
  show ?thesis
    using o d orphan_ticket_found sample_ticket_found
      get_ticket_needs_project [OF orphan_ticket_found, of 1]
      get_ticket_needs_project [OF sample_ticket_found, of 1]
    by simp
qed

section \<open>Ticket permissions\<close>

lemma check_principal_None_iff:
  "check_principal st p x = None \<longleftrightarrow>
     User_findById st x \<noteq> None \<and> (x \<in> set (teamMembers p) \<or> createdBy p = x)"
  by (auto simp: check_principal_def split: option.splits)

lemma check_principal_Some:
  "check_principal st p x = Some e \<Longrightarrow> e = NotFound \<or> e = BadRequest"
  by (auto simp: check_principal_def split: option.splits if_splits)

lemma bind_check_principal_Some:
  "Option.bind x (check_principal st p) = Some e \<Longrightarrow> e = NotFound \<or> e = BadRequest"
  by (cases x) (auto dest: check_principal_Some)

lemma Ticket_save_Some_iff:
  "Ticket_save st now i t = Some (t', st') \<longleftrightarrow>
     validate_ticket t \<and> t' = t\<lparr>t_updatedAt := now\<rparr>
     \<and> st' = st\<lparr>tickets := AList.update i t' (tickets st)\<rparr>"
  by (auto simp: Ticket_save_def Let_def)

lemma Ticket_findById_update [simp]:
  "Ticket_findById (st\<lparr>tickets := AList.update i t (tickets st)\<rparr>) j =
     (if j = i then Some t else Ticket_findById st j)"
  by (simp add: Ticket_findById_def update_conv')

lemma Ticket_findById_deleteOne [simp]:
  "Ticket_findById (Ticket_deleteOne st i) j = (if j = i then None else Ticket_findById st j)"
  by (simp add: Ticket_findById_def Ticket_deleteOne_def delete_conv')

lemma update_ticket_forbidden_iff:
  assumes "Ticket_findById st tid = Some t" and "Project_findById st (t_projectId t) = Some p"
  shows "fst (update_ticket st now actor tid body) = Inl Forbidden \<longleftrightarrow>
           \<not> (actor = createdBy p \<or> actor \<in> set (teamMembers p) \<or> actor = t_createdBy t)"
  using assms
  by (auto simp: update_ticket_def Let_def split: option.splits
      dest: bind_check_principal_Some)

lemma update_ticket_b_forbidden_iff:
  assumes "Ticket_findById st tid = Some t" and "Project_findById st (t_projectId t) = Some p"
  shows "fst (update_ticket_b st now actor tid body) = Inl Forbidden \<longleftrightarrow>
           \<not> (actor = createdBy p \<or> actor \<in> set (teamMembers p))"
  using assms
  by (auto simp: update_ticket_b_def Let_def split: option.splits
      dest: bind_check_principal_Some)

lemma update_ticket_c_forbidden_iff:
  assumes "Ticket_findById st tid = Some t" and "Project_findById st (t_projectId t) = Some p"
  shows "fst (update_ticket_c st now actor tid body) = Inl Forbidden \<longleftrightarrow>
           \<not> (actor = createdBy p \<or> actor \<in> set (teamMembers p))"
  using assms
  by (auto simp: update_ticket_c_def Let_def split: option.splits)

lemma update_ticket_error_keeps_store:
  "fst (update_ticket st now actor tid body) = Inl e \<Longrightarrow>
     snd (update_ticket st now actor tid body) = st"
  by (auto simp: update_ticket_def Let_def split: option.splits if_splits)

lemma update_ticket_b_error_keeps_store:
  "fst (update_ticket_b st now actor tid body) = Inl e \<Longrightarrow>
     snd (update_ticket_b st now actor tid body) = st"
  by (auto simp: update_ticket_b_def Let_def split: option.splits if_splits)

lemma update_ticket_c_error_keeps_store:
  "fst (update_ticket_c st now actor tid body) = Inl e \<Longrightarrow>
     snd (update_ticket_c st now actor tid body) = st"
  by (auto simp: update_ticket_c_def Let_def split: option.splits if_splits)

text \<open>
  C2, as the code has it. For every actor, stored ticket and stored project of that
  ticket: the update route of part_003 lines 191-251 answers 403 exactly when the actor
  is neither the project's creator, nor a member of its team, nor the ticket's creator;
  the update routes of part_003 lines 498-544 and of routes/tickets.js lines 80-101
  answer 403 exactly when the actor is neither the project's creator nor a member of
  its team, whoever created the ticket. A 403 leaves the store, hence the ticket,
  unchanged.
\<close>

theorem update_permission_by_variant:
  assumes "Ticket_findById st tid = Some t" and "Project_findById st (t_projectId t) = Some p"
  shows "(fst (update_ticket st now actor tid body) = Inl Forbidden \<longleftrightarrow>
            \<not> (actor = createdBy p \<or> actor \<in> set (teamMembers p) \<or> actor = t_createdBy t))
       \<and> (fst (update_ticket_b st now actor tid body) = Inl Forbidden \<longleftrightarrow>
            \<not> (actor = createdBy p \<or> actor \<in> set (teamMembers p)))
       \<and> (fst (update_ticket_c st now actor tid body) = Inl Forbidden \<longleftrightarrow>
            \<not> (actor = createdBy p \<or> actor \<in> set (teamMembers p)))
       \<and> (fst (update_ticket st now actor tid body) = Inl Forbidden \<longrightarrow>
            snd (update_ticket st now actor tid body) = st)
       \<and> (fst (update_ticket_b st now actor tid body) = Inl Forbidden \<longrightarrow>
            snd (update_ticket_b st now actor tid body) = st)
       \<and> (fst (update_ticket_c st now actor tid body) = Inl Forbidden \<longrightarrow>
            snd (update_ticket_c st now actor tid body) = st)
       \<and> http_status Forbidden = 403"
proof -
  have "http_status Forbidden = 403"
    by simp
  then show ?thesis
    using update_ticket_forbidden_iff [OF assms, of now actor body]
      update_ticket_b_forbidden_iff [OF assms, of now actor body]
      update_ticket_c_forbidden_iff [OF assms, of now actor body]
      update_ticket_error_keeps_store [of st now actor tid body Forbidden]
      update_ticket_b_error_keeps_store [of st now actor tid body Forbidden]
      update_ticket_c_error_keeps_store [of st now actor tid body Forbidden]
    by blast
qed

theorem update_permission_by_variant_witness:
  "Ticket_findById sample_store 100 = Some sample_ticket
   \<and> Project_findById sample_store (t_projectId sample_ticket) = Some sample_project
   \<and> fst (update_ticket sample_store 2000 3 100 empty_body) \<noteq> Inl Forbidden
   \<and> update_ticket_c sample_store 2000 3 100 empty_body = (Inl Forbidden, sample_store)
   \<and> fst (update_ticket sample_store 2000 4 100 empty_body) = Inl Forbidden"
  using sample_ticket_found sample_ticket_project
    update_permission_by_variant [OF sample_ticket_found sample_ticket_project, of 2000 3 empty_body]
    update_permission_by_variant [OF sample_ticket_found sample_ticket_project, of 2000 4 empty_body]
  by (simp add: sample_project_def sample_ticket_def prod_eq_iff)

text \<open>
  C2 as stated fails on two of the three update routes: user 3 created the sample
  ticket and is neither the owner nor on the team of its project; both routes answer
  403.
\<close>

theorem ticket_creator_denied_counterexample:
  "\<not> (fst (update_ticket_c sample_store 2000 3 100 empty_body) \<noteq> Inl Forbidden \<longleftrightarrow>
        3 = createdBy sample_project \<or> 3 \<in> set (teamMembers sample_project)
        \<or> 3 = t_createdBy sample_ticket)
   \<and> \<not> (fst (update_ticket_b sample_store 2000 3 100 empty_body) \<noteq> Inl Forbidden \<longleftrightarrow>
        3 = createdBy sample_project \<or> 3 \<in> set (teamMembers sample_project)
        \<or> 3 = t_createdBy sample_ticket)"
  by (simp add: update_ticket_c_def update_ticket_b_def sample_ticket_found sample_project_found
      sample_project_def sample_ticket_def)

lemma sample_member_may_update:
  "fst (update_ticket sample_store now 2 100 body) \<noteq> Inl Forbidden"
  using update_ticket_forbidden_iff [OF sample_ticket_found sample_ticket_project, of now 2 body]
  by (simp add: sample_project_def)

lemma sample_member_may_update_c:
  "fst (update_ticket_c sample_store now 2 100 body) \<noteq> Inl Forbidden"
  using update_ticket_c_forbidden_iff [OF sample_ticket_found sample_ticket_project, of now 2 body]
  by (simp add: sample_project_def)

lemma sample_member_may_not_delete:
  "fst (delete_ticket sample_store 2 100) = Inl Forbidden"
  "fst (delete_ticket_c sample_store 2 100) = Inl Forbidden"
  by (simp_all add: delete_ticket_def delete_ticket_c_def sample_ticket_found
      sample_ticket_project Let_def sample_project_def sample_ticket_def sample_project_found)

lemma delete_ticket_forbidden_iff:
  assumes "Ticket_findById st tid = Some t" and "Project_findById st (t_projectId t) = Some p"
  shows "fst (delete_ticket st actor tid) = Inl Forbidden \<longleftrightarrow>
           \<not> (actor = createdBy p \<or> actor = t_createdBy t)"
  using assms by (auto simp: delete_ticket_def Let_def)

lemma delete_ticket_c_forbidden_iff:
  assumes "Ticket_findById st tid = Some t" and "Project_findById st (t_projectId t) = Some p"
  shows "fst (delete_ticket_c st actor tid) = Inl Forbidden \<longleftrightarrow>
           \<not> (actor = createdBy p \<or> actor = t_createdBy t)"
  using assms by (auto simp: delete_ticket_c_def)

text \<open>
  C3, as the code has it. For every actor, stored ticket and stored project of that
  ticket, the delete routes answer 403 exactly when the actor is neither the project's
  creator nor the ticket's creator, and otherwise delete the ticket. Against the update
  route of part_003 lines 191-251 the permission is strictly narrower: whoever may
  delete may update, and some actor may update but not delete. Against the update
  routes of routes/tickets.js lines 80-101 and part_003 lines 498-544 it is not: an
  actor who may delete may update when they are the project's creator or on its team,
  and may not when they are only the ticket's creator; some actor may update but not
  delete there too.
\<close>

theorem delete_permission_by_variant:
  assumes "Ticket_findById st tid = Some t" and "Project_findById st (t_projectId t) = Some p"
  shows "(fst (delete_ticket st actor tid) = Inl Forbidden \<longleftrightarrow>
            \<not> (actor = createdBy p \<or> actor = t_createdBy t))
       \<and> (fst (delete_ticket_c st actor tid) = Inl Forbidden \<longleftrightarrow>
            \<not> (actor = createdBy p \<or> actor = t_createdBy t))
       \<and> (actor = createdBy p \<or> actor = t_createdBy t \<longrightarrow>
            delete_ticket st actor tid = (Inr (), Ticket_deleteOne st tid)
            \<and> delete_ticket_c st actor tid = (Inr (), Ticket_deleteOne st tid)
            \<and> Ticket_findById (Ticket_deleteOne st tid) tid = None)
       \<and> (fst (delete_ticket st actor tid) \<noteq> Inl Forbidden \<longrightarrow>
            fst (update_ticket st now actor tid body) \<noteq> Inl Forbidden)
       \<and> (\<exists>st0 actor0 tid0.
            fst (update_ticket st0 now actor0 tid0 body) \<noteq> Inl Forbidden
            \<and> fst (delete_ticket st0 actor0 tid0) = Inl Forbidden)
       \<and> (fst (delete_ticket_c st actor tid) \<noteq> Inl Forbidden
            \<and> (actor = createdBy p \<or> actor \<in> set (teamMembers p)) \<longrightarrow>
            fst (update_ticket_c st now actor tid body) \<noteq> Inl Forbidden
            \<and> fst (update_ticket_b st now actor tid body) \<noteq> Inl Forbidden)
       \<and> (fst (delete_ticket_c st actor tid) \<noteq> Inl Forbidden
            \<and> actor \<noteq> createdBy p \<and> actor \<notin> set (teamMembers p) \<longrightarrow>
            actor = t_createdBy t
            \<and> fst (update_ticket_c st now actor tid body) = Inl Forbidden
            \<and> fst (update_ticket_b st now actor tid body) = Inl Forbidden)
       \<and> (\<exists>st0 actor0 tid0.
            fst (update_ticket_c st0 now actor0 tid0 body) \<noteq> Inl Forbidden
            \<and> fst (delete_ticket_c st0 actor0 tid0) = Inl Forbidden)"
proof -
  note d = delete_ticket_forbidden_iff [OF assms, of actor]
  note dc = delete_ticket_c_forbidden_iff [OF assms, of actor]
  note u = update_ticket_forbidden_iff [OF assms, of now actor body]
  note ub = update_ticket_b_forbidden_iff [OF assms, of now actor body]
  note uc = update_ticket_c_forbidden_iff [OF assms, of now actor body]
  have ok: "actor = createdBy p \<or> actor = t_createdBy t \<longrightarrow>
              delete_ticket st actor tid = (Inr (), Ticket_deleteOne st tid)
              \<and> delete_ticket_c st actor tid = (Inr (), Ticket_deleteOne st tid)
              \<and> Ticket_findById (Ticket_deleteOne st tid) tid = None"
    using assms by (auto simp: delete_ticket_def delete_ticket_c_def Let_def)
  have sub: "fst (delete_ticket st actor tid) \<noteq> Inl Forbidden \<longrightarrow>
               fst (update_ticket st now actor tid body) \<noteq> Inl Forbidden"
    using d u by blast
  have strict: "\<exists>st0 actor0 tid0.
                  fst (update_ticket st0 now actor0 tid0 body) \<noteq> Inl Forbidden
                  \<and> fst (delete_ticket st0 actor0 tid0) = Inl Forbidden"
    using sample_member_may_update sample_member_may_not_delete(1) by blast
  have inside: "fst (delete_ticket_c st actor tid) \<noteq> Inl Forbidden
            \<and> (actor = createdBy p \<or> actor \<in> set (teamMembers p)) \<longrightarrow>
            fst (update_ticket_c st now actor tid body) \<noteq> Inl Forbidden
            \<and> fst (update_ticket_b st now actor tid body) \<noteq> Inl Forbidden"
    using ub uc by blast
  have outside: "fst (delete_ticket_c st actor tid) \<noteq> Inl Forbidden
            \<and> actor \<noteq> createdBy p \<and> actor \<notin> set (teamMembers p) \<longrightarrow>
            actor = t_createdBy t
            \<and> fst (update_ticket_c st now actor tid body) = Inl Forbidden
            \<and> fst (update_ticket_b st now actor tid body) = Inl Forbidden"
    using dc ub uc by blast
  have strict_c: "\<exists>st0 actor0 tid0.
                  fst (update_ticket_c st0 now actor0 tid0 body) \<noteq> Inl Forbidden
                  \<and> fst (delete_ticket_c st0 actor0 tid0) = Inl Forbidden"
    using sample_member_may_update_c sample_member_may_not_delete(2) by blast
  from d dc ok sub strict inside outside strict_c show ?thesis
    by blast
qed

theorem delete_permission_by_variant_witness:
  "Ticket_findById sample_store 100 = Some sample_ticket
   \<and> Project_findById sample_store (t_projectId sample_ticket) = Some sample_project
   \<and> fst (delete_ticket sample_store 2 100) = Inl Forbidden
   \<and> fst (delete_ticket_c sample_store 2 100) = Inl Forbidden
   \<and> delete_ticket sample_store 3 100 = (Inr (), Ticket_deleteOne sample_store 100)
   \<and> delete_ticket_c sample_store 3 100 = (Inr (), Ticket_deleteOne sample_store 100)
   \<and> delete_ticket sample_store 1 100 = (Inr (), Ticket_deleteOne sample_store 100)
   \<and> fst (update_ticket sample_store 2000 3 100 empty_body) \<noteq> Inl Forbidden
   \<and> fst (update_ticket_c sample_store 2000 3 100 empty_body) = Inl Forbidden
   \<and> fst (update_ticket_b sample_store 2000 3 100 empty_body) = Inl Forbidden
   \<and> fst (update_ticket_c sample_store 2000 1 100 empty_body) \<noteq> Inl Forbidden"
  using sample_ticket_found sample_ticket_project
    delete_permission_by_variant [OF sample_ticket_found sample_ticket_project, of 2 2000 empty_body]
    delete_permission_by_variant [OF sample_ticket_found sample_ticket_project, of 3 2000 empty_body]
    delete_permission_by_variant [OF sample_ticket_found sample_ticket_project, of 1 2000 empty_body]
  by (simp add: sample_project_def sample_ticket_def)

text \<open>
  C3 as stated fails on routes/tickets.js and on the second file of part_003: user 3,
  who created the sample ticket and is neither owner nor member of its project, is
  allowed to delete it and is answered 403 when updating it.
\<close>

theorem ticket_creator_deletes_counterexample:
  "fst (delete_ticket_c sample_store 3 100) \<noteq> Inl Forbidden
   \<and> fst (update_ticket_c sample_store 2000 3 100 empty_body) = Inl Forbidden
   \<and> fst (update_ticket_b sample_store 2000 3 100 empty_body) = Inl Forbidden"
  by (simp add: delete_ticket_c_def update_ticket_c_def update_ticket_b_def sample_ticket_found
      sample_project_found sample_project_def sample_ticket_def)

section \<open>Update payloads\<close>

lemma update_ticket_Inr:
  assumes "update_ticket st now actor tid body = (Inr t', st')"
    and "Ticket_findById st tid = Some t"
  shows "t' = (Object_assign t body)\<lparr>t_updatedAt := now\<rparr>
       \<and> st' = st\<lparr>tickets := AList.update tid t' (tickets st)\<rparr>"
  using assms
  by (auto simp: update_ticket_def Let_def Ticket_save_Some_iff
      split: option.splits if_splits)

lemma update_ticket_c_Inr:
  assumes "update_ticket_c st now actor tid body = (Inr t', st')"
    and "Ticket_findById st tid = Some t"
  shows "t' = (Object_assign t body)\<lparr>t_updatedAt := now\<rparr>
       \<and> st' = st\<lparr>tickets := AList.update tid t' (tickets st)\<rparr>"
  using assms
  by (auto simp: update_ticket_c_def Let_def Ticket_save_Some_iff
      split: option.splits if_splits)

lemma Object_assign_fields:
  "t_projectId (Object_assign t body) = (case b_projectId body of None \<Rightarrow> t_projectId t | Some v \<Rightarrow> v)"
  "t_createdBy (Object_assign t body) = (case b_createdBy body of None \<Rightarrow> t_createdBy t | Some v \<Rightarrow> v)"
  "t_title (Object_assign t body) = (case b_title body of None \<Rightarrow> t_title t | Some v \<Rightarrow> trim v)"
  "t_description (Object_assign t body) = (case b_description body of None \<Rightarrow> t_description t | Some v \<Rightarrow> v)"
  "t_priority (Object_assign t body) = (case b_priority body of None \<Rightarrow> t_priority t | Some v \<Rightarrow> v)"
  "t_status (Object_assign t body) = (case b_status body of None \<Rightarrow> t_status t | Some v \<Rightarrow> v)"
  "t_type (Object_assign t body) = (case b_type body of None \<Rightarrow> t_type t | Some v \<Rightarrow> v)"
  "t_tags (Object_assign t body) = (case b_tags body of None \<Rightarrow> t_tags t | Some v \<Rightarrow> map trim v)"
  "t_assignee (Object_assign t body) =
     (case b_assignee body of Absent \<Rightarrow> t_assignee t | Null \<Rightarrow> None | Val v \<Rightarrow> Some v)"
  "t_reporter (Object_assign t body) = (case b_reporter body of None \<Rightarrow> t_reporter t | Some v \<Rightarrow> v)"
  "t_comments (Object_assign t body) = (case b_comments body of None \<Rightarrow> t_comments t | Some v \<Rightarrow> v)"
  "t_createdAt (Object_assign t body) = (case b_createdAt body of None \<Rightarrow> t_createdAt t | Some v \<Rightarrow> v)"
  by (simp_all add: Object_assign_def)

text \<open>
  C7, as the code has it. When an update succeeds, the stored ticket has every field of
  the payload assigned, \<open>projectId\<close> and \<open>createdBy\<close> included, and the comment
  log and the creation instant as well; title and tags are trimmed, a \<open>null\<close>
  assignee unassigns. A field absent from the payload keeps its value (so
  \<open>projectId\<close> and \<open>createdBy\<close> are unchanged only when the payload leaves them
  out). The one field of the payload that is not applied is \<open>updatedAt\<close>: it is the
  instant of the save, whatever the payload holds.
\<close>

theorem update_assigns_every_present_field:
  assumes "Ticket_findById st tid = Some t"
    and "update_ticket st now actor tid body = (Inr t', st')
         \<or> update_ticket_c st now actor tid body = (Inr t', st')"
  shows "Ticket_findById st' tid = Some t'
       \<and> t_projectId t' = (case b_projectId body of None \<Rightarrow> t_projectId t | Some v \<Rightarrow> v)
       \<and> t_createdBy t' = (case b_createdBy body of None \<Rightarrow> t_createdBy t | Some v \<Rightarrow> v)
       \<and> t_title t' = (case b_title body of None \<Rightarrow> t_title t | Some v \<Rightarrow> trim v)
       \<and> t_description t' = (case b_description body of None \<Rightarrow> t_description t | Some v \<Rightarrow> v)
       \<and> t_priority t' = (case b_priority body of None \<Rightarrow> t_priority t | Some v \<Rightarrow> v)
       \<and> t_status t' = (case b_status body of None \<Rightarrow> t_status t | Some v \<Rightarrow> v)
       \<and> t_type t' = (case b_type body of None \<Rightarrow> t_type t | Some v \<Rightarrow> v)
       \<and> t_tags t' = (case b_tags body of None \<Rightarrow> t_tags t | Some v \<Rightarrow> map trim v)
       \<and> t_assignee t' =
             (case b_assignee body of Absent \<Rightarrow> t_assignee t | Null \<Rightarrow> None | Val v \<Rightarrow> Some v)
       \<and> t_reporter t' = (case b_reporter body of None \<Rightarrow> t_reporter t | Some v \<Rightarrow> v)
       \<and> t_comments t' = (case b_comments body of None \<Rightarrow> t_comments t | Some v \<Rightarrow> v)
       \<and> t_createdAt t' = (case b_createdAt body of None \<Rightarrow> t_createdAt t | Some v \<Rightarrow> v)
       \<and> t_updatedAt t' = now"
proof -
  have "t' = (Object_assign t body)\<lparr>t_updatedAt := now\<rparr>
        \<and> st' = st\<lparr>tickets := AList.update tid t' (tickets st)\<rparr>"
    using assms update_ticket_Inr update_ticket_c_Inr by blast
  then show ?thesis
    by (simp add: Object_assign_fields)
qed

lemma reparented: "Object_assign sample_ticket reparenting_body = reparented_ticket"
  by (simp add: Object_assign_def reparenting_body_def empty_body_def sample_ticket_def
      reparented_ticket_def)

lemma reparented_valid: "validate_ticket reparented_ticket"
  by (simp add: validate_ticket_def sample_ticket_def reparented_ticket_def)

lemma reparenting_body_principals:
  "b_assignee reparenting_body = Absent" "b_reporter reparenting_body = None"
  by (simp_all add: reparenting_body_def empty_body_def)

lemma trim_renamed: "trim (CHR 0xC2 # CHR 0xA0 # ''Renamed '') = ''Renamed''"
  by code_simp

lemma overwritten:
  "Object_assign sample_ticket overwriting_body
     = sample_ticket\<lparr>t_title := ''Renamed'', t_comments := [], t_createdAt := 5,
                     t_updatedAt := 7\<rparr>"
  by (simp add: Object_assign_def overwriting_body_def empty_body_def sample_ticket_def
      trim_renamed)

lemma overwritten_valid:
  "validate_ticket (sample_ticket\<lparr>t_title := ''Renamed'', t_comments := [], t_createdAt := 5,
                                  t_updatedAt := 7\<rparr>)"
  by (simp add: validate_ticket_def sample_ticket_def)

lemma overwriting_body_principals:
  "b_assignee overwriting_body = Null" "b_reporter overwriting_body = None"
  by (simp_all add: overwriting_body_def empty_body_def)

lemma overwriting_update:
  "fst (update_ticket sample_store 2000 1 100 overwriting_body)
     = Inr (sample_ticket\<lparr>t_title := ''Renamed'', t_comments := [], t_createdAt := 5,
                          t_updatedAt := 2000\<rparr>)"
  by (simp add: update_ticket_def sample_ticket_found sample_ticket_project
      overwriting_body_principals Let_def overwritten Ticket_save_def overwritten_valid
      sample_project_def)

lemma reparenting_update:
  "fst (update_ticket sample_store 2000 1 100 reparenting_body)
     = Inr (reparented_ticket\<lparr>t_updatedAt := 2000\<rparr>)"
  by (simp add: update_ticket_def sample_ticket_found sample_ticket_project
      reparenting_body_principals Let_def reparented Ticket_save_def reparented_valid
      sample_project_def)

lemma reparenting_stored:
  "Ticket_findById (snd (update_ticket sample_store 2000 1 100 reparenting_body)) 100
     = Some (reparented_ticket\<lparr>t_updatedAt := 2000\<rparr>)"
  by (simp add: update_ticket_def sample_ticket_found sample_ticket_project
      reparenting_body_principals Let_def reparented Ticket_save_def reparented_valid
      sample_project_def)

lemma reparenting_update_c:
  "fst (update_ticket_c sample_store 2000 1 100 reparenting_body)
     = Inr (reparented_ticket\<lparr>t_updatedAt := 2000\<rparr>)"
  by (simp add: update_ticket_c_def sample_ticket_found sample_ticket_project
      Let_def reparented Ticket_save_def reparented_valid sample_project_def)

theorem update_assigns_every_present_field_witness:
  "Ticket_findById sample_store 100 = Some sample_ticket
   \<and> (\<exists>t' st'. update_ticket sample_store 2000 1 100 reparenting_body = (Inr t', st')
         \<and> t_projectId t' = 11 \<and> t_createdBy t' = 2 \<and> t_status t' = ''Done''
         \<and> t_title t' = t_title sample_ticket)
   \<and> (\<exists>t' st'. update_ticket sample_store 2000 1 100 overwriting_body = (Inr t', st')
         \<and> t_title t' = ''Renamed'' \<and> t_assignee t' = None \<and> t_comments t' = []
         \<and> t_createdAt t' = 5 \<and> t_updatedAt t' = 2000
         \<and> t_projectId t' = t_projectId sample_ticket)"
proof -
  obtain st' where u: "update_ticket sample_store 2000 1 100 reparenting_body
                         = (Inr (reparented_ticket\<lparr>t_updatedAt := 2000\<rparr>), st')"
    using reparenting_update by (metis prod.collapse)
  then have "update_ticket sample_store 2000 1 100 reparenting_body
               = (Inr (reparented_ticket\<lparr>t_updatedAt := 2000\<rparr>), st')
             \<or> update_ticket_c sample_store 2000 1 100 reparenting_body
               = (Inr (reparented_ticket\<lparr>t_updatedAt := 2000\<rparr>), st')"
    by simp
  from update_assigns_every_present_field [OF sample_ticket_found this] u
  have first: "\<exists>t' st'. update_ticket sample_store 2000 1 100 reparenting_body = (Inr t', st')
         \<and> t_projectId t' = 11 \<and> t_createdBy t' = 2 \<and> t_status t' = ''Done''
         \<and> t_title t' = t_title sample_ticket"
    by (simp add: reparenting_body_def empty_body_def)
  let ?t = "sample_ticket\<lparr>t_title := ''Renamed'', t_comments := [], t_createdAt := 5,
                          t_updatedAt := 2000\<rparr>"
  obtain st'' where w: "update_ticket sample_store 2000 1 100 overwriting_body = (Inr ?t, st'')"
    using overwriting_update by (metis prod.collapse)
  then have "update_ticket sample_store 2000 1 100 overwriting_body = (Inr ?t, st'')
             \<or> update_ticket_c sample_store 2000 1 100 overwriting_body = (Inr ?t, st'')"
    by simp
  from update_assigns_every_present_field [OF sample_ticket_found this] w
  have second: "\<exists>t' st'. update_ticket sample_store 2000 1 100 overwriting_body = (Inr t', st')
         \<and> t_title t' = ''Renamed'' \<and> t_assignee t' = None \<and> t_comments t' = []
         \<and> t_createdAt t' = 5 \<and> t_updatedAt t' = 2000
         \<and> t_projectId t' = t_projectId sample_ticket"
    by (simp add: overwriting_body_def empty_body_def trim_renamed)
  from sample_ticket_found first second show ?thesis
    by blast
qed

text \<open>
  C7 as stated fails: a payload with \<open>projectId\<close> 11 and \<open>createdBy\<close> 2, sent by
  the owner, moves the sample ticket from project 10 to 11 and changes its creator from
  3 to 2, on both update routes.
\<close>

theorem immutable_fields_overwritten_counterexample:
  "t_projectId sample_ticket = 10 \<and> t_createdBy sample_ticket = 3
   \<and> fst (update_ticket sample_store 2000 1 100 reparenting_body)
       = Inr (reparented_ticket\<lparr>t_updatedAt := 2000\<rparr>)
   \<and> fst (update_ticket_c sample_store 2000 1 100 reparenting_body)
       = Inr (reparented_ticket\<lparr>t_updatedAt := 2000\<rparr>)
   \<and> Ticket_findById (snd (update_ticket sample_store 2000 1 100 reparenting_body)) 100
       = Some (reparented_ticket\<lparr>t_updatedAt := 2000\<rparr>)
   \<and> t_projectId (reparented_ticket\<lparr>t_updatedAt := 2000\<rparr>) = 11
   \<and> t_createdBy (reparented_ticket\<lparr>t_updatedAt := 2000\<rparr>) = 2"
  using reparenting_update reparenting_update_c reparenting_stored
  by (simp add: sample_ticket_def reparented_ticket_def)

section \<open>Assignee and reporter\<close>

lemma check_principal_NotFound:
  "User_findById st x = None \<Longrightarrow> check_principal st p x = Some NotFound"
  by (simp add: check_principal_def)

lemma check_principal_BadRequest:
  "User_findById st x \<noteq> None \<Longrightarrow> x \<notin> set (teamMembers p) \<Longrightarrow> x \<noteq> createdBy p \<Longrightarrow>
     check_principal st p x = Some BadRequest"
  by (auto simp: check_principal_def split: option.splits)

lemma check_principal_ok:
  "User_findById st x \<noteq> None \<Longrightarrow> x \<in> set (teamMembers p) \<or> x = createdBy p \<Longrightarrow>
     check_principal st p x = None"
  by (auto simp: check_principal_def split: option.splits)

lemma bind_check_principal_ok:
  "(\<forall>a. x = Some a \<longrightarrow> User_findById st a \<noteq> None \<and> (a \<in> set (teamMembers p) \<or> a = createdBy p))
     \<Longrightarrow> Option.bind x (check_principal st p) = None"
  by (cases x) (auto simp: check_principal_ok)

lemma truthy_Some_iff: "truthy x = Some a \<longleftrightarrow> x = Val a"
  by (cases x) auto

lemma create_ticket_unfold:
  assumes "b_projectId body = Some pid" and "Project_findById st pid = Some p"
    and "actor = createdBy p \<or> actor \<in> set (teamMembers p)"
    and "rep = (case b_reporter body of None \<Rightarrow> actor | Some r \<Rightarrow> r)"
  shows "create_ticket st now newId actor body =
           (case Option.bind (truthy (b_assignee body)) (check_principal st p) of
              Some e \<Rightarrow> (Inl e, st)
            | None \<Rightarrow>
                (case check_principal st p rep of
                   Some e \<Rightarrow> (Inl e, st)
                 | None \<Rightarrow>
                     (case Ticket_save st now newId
                             (new_Ticket now body (truthy (b_assignee body)) rep pid actor) of
                        None \<Rightarrow> (Inl BadRequest, st)
                      | Some (t, st') \<Rightarrow> (Inr t, st'))))"
  using assms by (auto simp: create_ticket_def Let_def)

lemma update_ticket_unfold:
  assumes "Ticket_findById st tid = Some t" and "Project_findById st (t_projectId t) = Some p"
    and "actor = createdBy p \<or> actor \<in> set (teamMembers p) \<or> actor = t_createdBy t"
  shows "update_ticket st now actor tid body =
           (case Option.bind (truthy (b_assignee body)) (check_principal st p) of
              Some e \<Rightarrow> (Inl e, st)
            | None \<Rightarrow>
                (case Option.bind (b_reporter body) (check_principal st p) of
                   Some e \<Rightarrow> (Inl e, st)
                 | None \<Rightarrow>
                     (case Ticket_save st now tid (Object_assign t body) of
                        None \<Rightarrow> (Inl BadRequest, st)
                      | Some (t', st') \<Rightarrow> (Inr t', st'))))"
  using assms by (auto simp: update_ticket_def Let_def)

lemma Ticket_save_valid:
  "validate_ticket t \<Longrightarrow>
     Ticket_save st now i t =
       Some (t\<lparr>t_updatedAt := now\<rparr>, st\<lparr>tickets := AList.update i (t\<lparr>t_updatedAt := now\<rparr>) (tickets st)\<rparr>)"
  by (simp add: Ticket_save_def Let_def)

lemma Ticket_save_invalid: "\<not> validate_ticket t \<Longrightarrow> Ticket_save st now i t = None"
  by (simp add: Ticket_save_def)

lemma create_ticket_error_keeps_store:
  "fst (create_ticket st now newId actor body) = Inl e \<Longrightarrow>
     snd (create_ticket st now newId actor body) = st"
  by (auto simp: create_ticket_def Let_def split: option.splits if_splits)

lemma create_ticket_outcomes:
  assumes "b_projectId body = Some pid" and "Project_findById st pid = Some p"
    and "actor = createdBy p \<or> actor \<in> set (teamMembers p)"
    and "rep = (case b_reporter body of None \<Rightarrow> actor | Some r \<Rightarrow> r)"
  shows "(\<forall>a. b_assignee body = Val a \<and> User_findById st a = None \<longrightarrow>
            create_ticket st now newId actor body = (Inl NotFound, st))
       \<and> (\<forall>a. b_assignee body = Val a \<and> User_findById st a \<noteq> None
               \<and> a \<notin> set (teamMembers p) \<and> a \<noteq> createdBy p \<longrightarrow>
            create_ticket st now newId actor body = (Inl BadRequest, st))
       \<and> ((\<forall>a. b_assignee body = Val a \<longrightarrow>
              User_findById st a \<noteq> None \<and> (a \<in> set (teamMembers p) \<or> a = createdBy p)) \<longrightarrow>
            (User_findById st rep = None \<longrightarrow>
               create_ticket st now newId actor body = (Inl NotFound, st))
          \<and> (User_findById st rep \<noteq> None \<and> rep \<notin> set (teamMembers p) \<and> rep \<noteq> createdBy p \<longrightarrow>
               create_ticket st now newId actor body = (Inl BadRequest, st))
          \<and> (User_findById st rep \<noteq> None \<and> (rep \<in> set (teamMembers p) \<or> rep = createdBy p)
               \<and> validate_ticket (new_Ticket now body (truthy (b_assignee body)) rep pid actor) \<longrightarrow>
               (\<exists>t' st'. create_ticket st now newId actor body = (Inr t', st')
                  \<and> Ticket_findById st' newId = Some t'
                  \<and> t_reporter t' = rep \<and> t_assignee t' = truthy (b_assignee body)
                  \<and> t_createdBy t' = actor \<and> t_projectId t' = pid)))"
proof -
  note c = create_ticket_unfold [OF assms, of now newId]
  have a1: "\<forall>a. b_assignee body = Val a \<and> User_findById st a = None \<longrightarrow>
            create_ticket st now newId actor body = (Inl NotFound, st)"
    by (simp add: c check_principal_NotFound)
  have a2: "\<forall>a. b_assignee body = Val a \<and> User_findById st a \<noteq> None
               \<and> a \<notin> set (teamMembers p) \<and> a \<noteq> createdBy p \<longrightarrow>
            create_ticket st now newId actor body = (Inl BadRequest, st)"
    by (simp add: c check_principal_BadRequest)
  have a3: "create_ticket st now newId actor body = (Inl NotFound, st)"
    if "\<forall>a. b_assignee body = Val a \<longrightarrow>
              User_findById st a \<noteq> None \<and> (a \<in> set (teamMembers p) \<or> a = createdBy p)"
      and "User_findById st rep = None"
  proof -
    have "Option.bind (truthy (b_assignee body)) (check_principal st p) = None"
      using that(1) by (intro bind_check_principal_ok) (simp add: truthy_Some_iff)
    then show ?thesis
      using that(2) by (simp add: c check_principal_NotFound)
  qed
  have a4: "create_ticket st now newId actor body = (Inl BadRequest, st)"
    if "\<forall>a. b_assignee body = Val a \<longrightarrow>
              User_findById st a \<noteq> None \<and> (a \<in> set (teamMembers p) \<or> a = createdBy p)"
      and "User_findById st rep \<noteq> None \<and> rep \<notin> set (teamMembers p) \<and> rep \<noteq> createdBy p"
  proof -
    have "Option.bind (truthy (b_assignee body)) (check_principal st p) = None"
      using that(1) by (intro bind_check_principal_ok) (simp add: truthy_Some_iff)
    then show ?thesis
      using that(2) by (simp add: c check_principal_BadRequest)
  qed
  have a5: "\<exists>t' st'. create_ticket st now newId actor body = (Inr t', st')
                  \<and> Ticket_findById st' newId = Some t'
                  \<and> t_reporter t' = rep \<and> t_assignee t' = truthy (b_assignee body)
                  \<and> t_createdBy t' = actor \<and> t_projectId t' = pid"
    if "\<forall>a. b_assignee body = Val a \<longrightarrow>
              User_findById st a \<noteq> None \<and> (a \<in> set (teamMembers p) \<or> a = createdBy p)"
      and "User_findById st rep \<noteq> None \<and> (rep \<in> set (teamMembers p) \<or> rep = createdBy p)
               \<and> validate_ticket (new_Ticket now body (truthy (b_assignee body)) rep pid actor)"
  proof -
    have "Option.bind (truthy (b_assignee body)) (check_principal st p) = None"
      using that(1) by (intro bind_check_principal_ok) (simp add: truthy_Some_iff)
    then show ?thesis
      using that(2) by (simp add: c check_principal_ok Ticket_save_valid new_Ticket_def)
  qed
  from a1 a2 a3 a4 a5 show ?thesis
    by blast
qed

lemma update_ticket_outcomes:
  assumes "Ticket_findById st tid = Some t" and "Project_findById st (t_projectId t) = Some q"
    and "editor = createdBy q \<or> editor \<in> set (teamMembers q) \<or> editor = t_createdBy t"
  shows "(\<forall>a. b_assignee upd = Val a \<and> User_findById st a = None \<longrightarrow>
            update_ticket st now editor tid upd = (Inl NotFound, st))
       \<and> (\<forall>a. b_assignee upd = Val a \<and> User_findById st a \<noteq> None
               \<and> a \<notin> set (teamMembers q) \<and> a \<noteq> createdBy q \<longrightarrow>
            update_ticket st now editor tid upd = (Inl BadRequest, st))
       \<and> ((\<forall>a. b_assignee upd = Val a \<longrightarrow>
              User_findById st a \<noteq> None \<and> (a \<in> set (teamMembers q) \<or> a = createdBy q)) \<longrightarrow>
            (\<forall>r. b_reporter upd = Some r \<and> User_findById st r = None \<longrightarrow>
               update_ticket st now editor tid upd = (Inl NotFound, st))
          \<and> (\<forall>r. b_reporter upd = Some r \<and> User_findById st r \<noteq> None
                  \<and> r \<notin> set (teamMembers q) \<and> r \<noteq> createdBy q \<longrightarrow>
               update_ticket st now editor tid upd = (Inl BadRequest, st))
          \<and> ((\<forall>r. b_reporter upd = Some r \<longrightarrow>
                 User_findById st r \<noteq> None \<and> (r \<in> set (teamMembers q) \<or> r = createdBy q))
               \<and> validate_ticket (Object_assign t upd) \<longrightarrow>
               (\<exists>t' st'. update_ticket st now editor tid upd = (Inr t', st')
                  \<and> Ticket_findById st' tid = Some t'
                  \<and> t' = (Object_assign t upd)\<lparr>t_updatedAt := now\<rparr>)))"
proof -
  note u = update_ticket_unfold [OF assms, of now upd]
  have a1: "\<forall>a. b_assignee upd = Val a \<and> User_findById st a = None \<longrightarrow>
            update_ticket st now editor tid upd = (Inl NotFound, st)"
    by (simp add: u check_principal_NotFound)
  have a2: "\<forall>a. b_assignee upd = Val a \<and> User_findById st a \<noteq> None
               \<and> a \<notin> set (teamMembers q) \<and> a \<noteq> createdBy q \<longrightarrow>
            update_ticket st now editor tid upd = (Inl BadRequest, st)"
    by (simp add: u check_principal_BadRequest)
  have b: "Option.bind (truthy (b_assignee upd)) (check_principal st q) = None"
    if "\<forall>a. b_assignee upd = Val a \<longrightarrow>
              User_findById st a \<noteq> None \<and> (a \<in> set (teamMembers q) \<or> a = createdBy q)"
    using that by (intro bind_check_principal_ok) (simp add: truthy_Some_iff)
  have a3: "\<forall>r. b_reporter upd = Some r \<and> User_findById st r = None \<longrightarrow>
               update_ticket st now editor tid upd = (Inl NotFound, st)"
    if "\<forall>a. b_assignee upd = Val a \<longrightarrow>
              User_findById st a \<noteq> None \<and> (a \<in> set (teamMembers q) \<or> a = createdBy q)"
    by (simp add: u b [OF that] check_principal_NotFound)
  have a4: "\<forall>r. b_reporter upd = Some r \<and> User_findById st r \<noteq> None
                  \<and> r \<notin> set (teamMembers q) \<and> r \<noteq> createdBy q \<longrightarrow>
               update_ticket st now editor tid upd = (Inl BadRequest, st)"
    if "\<forall>a. b_assignee upd = Val a \<longrightarrow>
              User_findById st a \<noteq> None \<and> (a \<in> set (teamMembers q) \<or> a = createdBy q)"
    by (simp add: u b [OF that] check_principal_BadRequest)
  have a5: "\<exists>t' st'. update_ticket st now editor tid upd = (Inr t', st')
                  \<and> Ticket_findById st' tid = Some t'
                  \<and> t' = (Object_assign t upd)\<lparr>t_updatedAt := now\<rparr>"
    if "\<forall>a. b_assignee upd = Val a \<longrightarrow>
              User_findById st a \<noteq> None \<and> (a \<in> set (teamMembers q) \<or> a = createdBy q)"
      and "(\<forall>r. b_reporter upd = Some r \<longrightarrow>
                 User_findById st r \<noteq> None \<and> (r \<in> set (teamMembers q) \<or> r = createdBy q))
               \<and> validate_ticket (Object_assign t upd)"
    using that(2) by (simp add: u b [OF that(1)] bind_check_principal_ok Ticket_save_valid)
  from a1 a2 a3 a4 a5 show ?thesis
    by blast
qed

text \<open>
  C4 (routes of part_003 lines 13-83 and 191-251). Create: for a payload that names a
  stored project and an actor who is the project's creator or on its team, the
  reporter is the payload's, or the actor when the payload has none, and the assignee
  is the payload's or none. Update: for a stored ticket with a stored project, an actor
  who may update it, and any payload. In both, a supplied assignee who is no user is
  answered 404, and one who is a user but neither creator nor member of the project is
  answered 400; with the assignee in order the same holds for the reporter (on create
  the effective one, on update the one in the payload); with both in order and a valid
  document the ticket is created, or updated, and stored. Every error response of
  either route leaves the store as it was.
\<close>

theorem principals_are_validated:
  "(b_projectId body = Some pid \<and> Project_findById st pid = Some p
      \<and> (actor = createdBy p \<or> actor \<in> set (teamMembers p))
      \<and> rep = (case b_reporter body of None \<Rightarrow> actor | Some r \<Rightarrow> r) \<longrightarrow>
      (\<forall>a. b_assignee body = Val a \<and> User_findById st a = None \<longrightarrow>
               create_ticket st now newId actor body = (Inl NotFound, st))
          \<and> (\<forall>a. b_assignee body = Val a \<and> User_findById st a \<noteq> None
                  \<and> a \<notin> set (teamMembers p) \<and> a \<noteq> createdBy p \<longrightarrow>
               create_ticket st now newId actor body = (Inl BadRequest, st))
          \<and> ((\<forall>a. b_assignee body = Val a \<longrightarrow>
                 User_findById st a \<noteq> None \<and> (a \<in> set (teamMembers p) \<or> a = createdBy p)) \<longrightarrow>
               (User_findById st rep = None \<longrightarrow>
                  create_ticket st now newId actor body = (Inl NotFound, st))
             \<and> (User_findById st rep \<noteq> None \<and> rep \<notin> set (teamMembers p) \<and> rep \<noteq> createdBy p \<longrightarrow>
                  create_ticket st now newId actor body = (Inl BadRequest, st))
             \<and> (User_findById st rep \<noteq> None \<and> (rep \<in> set (teamMembers p) \<or> rep = createdBy p)
                  \<and> validate_ticket (new_Ticket now body (truthy (b_assignee body)) rep pid actor) \<longrightarrow>
                  (\<exists>t' st'. create_ticket st now newId actor body = (Inr t', st')
                     \<and> Ticket_findById st' newId = Some t'
                     \<and> t_reporter t' = rep \<and> t_assignee t' = truthy (b_assignee body)
                     \<and> t_createdBy t' = actor \<and> t_projectId t' = pid))))
   \<and> (Ticket_findById st tid = Some t \<and> Project_findById st (t_projectId t) = Some q
      \<and> (editor = createdBy q \<or> editor \<in> set (teamMembers q) \<or> editor = t_createdBy t) \<longrightarrow>
      (\<forall>a. b_assignee upd = Val a \<and> User_findById st a = None \<longrightarrow>
               update_ticket st now editor tid upd = (Inl NotFound, st))
          \<and> (\<forall>a. b_assignee upd = Val a \<and> User_findById st a \<noteq> None
                  \<and> a \<notin> set (teamMembers q) \<and> a \<noteq> createdBy q \<longrightarrow>
               update_ticket st now editor tid upd = (Inl BadRequest, st))
          \<and> ((\<forall>a. b_assignee upd = Val a \<longrightarrow>
                 User_findById st a \<noteq> None \<and> (a \<in> set (teamMembers q) \<or> a = createdBy q)) \<longrightarrow>
               (\<forall>r. b_reporter upd = Some r \<and> User_findById st r = None \<longrightarrow>
                  update_ticket st now editor tid upd = (Inl NotFound, st))
             \<and> (\<forall>r. b_reporter upd = Some r \<and> User_findById st r \<noteq> None
                     \<and> r \<notin> set (teamMembers q) \<and> r \<noteq> createdBy q \<longrightarrow>
                  update_ticket st now editor tid upd = (Inl BadRequest, st))
             \<and> ((\<forall>r. b_reporter upd = Some r \<longrightarrow>
                    User_findById st r \<noteq> None \<and> (r \<in> set (teamMembers q) \<or> r = createdBy q))
                  \<and> validate_ticket (Object_assign t upd) \<longrightarrow>
                  (\<exists>t' st'. update_ticket st now editor tid upd = (Inr t', st')
                     \<and> Ticket_findById st' tid = Some t'
                     \<and> t' = (Object_assign t upd)\<lparr>t_updatedAt := now\<rparr>))))
   \<and> (\<forall>e. fst (create_ticket st now newId actor body) = Inl e \<longrightarrow>
         snd (create_ticket st now newId actor body) = st)
   \<and> (\<forall>e. fst (update_ticket st now editor tid upd) = Inl e \<longrightarrow>
         snd (update_ticket st now editor tid upd) = st)
   \<and> http_status NotFound = 404 \<and> http_status BadRequest = 400"
proof -
  have c: "b_projectId body = Some pid \<and> Project_findById st pid = Some p
      \<and> (actor = createdBy p \<or> actor \<in> set (teamMembers p))
      \<and> rep = (case b_reporter body of None \<Rightarrow> actor | Some r \<Rightarrow> r) \<longrightarrow>
      (\<forall>a. b_assignee body = Val a \<and> User_findById st a = None \<longrightarrow>
            create_ticket st now newId actor body = (Inl NotFound, st))
       \<and> (\<forall>a. b_assignee body = Val a \<and> User_findById st a \<noteq> None
               \<and> a \<notin> set (teamMembers p) \<and> a \<noteq> createdBy p \<longrightarrow>
            create_ticket st now newId actor body = (Inl BadRequest, st))
       \<and> ((\<forall>a. b_assignee body = Val a \<longrightarrow>
              User_findById st a \<noteq> None \<and> (a \<in> set (teamMembers p) \<or> a = createdBy p)) \<longrightarrow>
            (User_findById st rep = None \<longrightarrow>
               create_ticket st now newId actor body = (Inl NotFound, st))
          \<and> (User_findById st rep \<noteq> None \<and> rep \<notin> set (teamMembers p) \<and> rep \<noteq> createdBy p \<longrightarrow>
               create_ticket st now newId actor body = (Inl BadRequest, st))
          \<and> (User_findById st rep \<noteq> None \<and> (rep \<in> set (teamMembers p) \<or> rep = createdBy p)
               \<and> validate_ticket (new_Ticket now body (truthy (b_assignee body)) rep pid actor) \<longrightarrow>
               (\<exists>t' st'. create_ticket st now newId actor body = (Inr t', st')
                  \<and> Ticket_findById st' newId = Some t'
                  \<and> t_reporter t' = rep \<and> t_assignee t' = truthy (b_assignee body)
                  \<and> t_createdBy t' = actor \<and> t_projectId t' = pid)))"
    using create_ticket_outcomes [of body pid st p actor rep now newId] by blast
  have u: "Ticket_findById st tid = Some t \<and> Project_findById st (t_projectId t) = Some q
      \<and> (editor = createdBy q \<or> editor \<in> set (teamMembers q) \<or> editor = t_createdBy t) \<longrightarrow>
      (\<forall>a. b_assignee upd = Val a \<and> User_findById st a = None \<longrightarrow>
            update_ticket st now editor tid upd = (Inl NotFound, st))
       \<and> (\<forall>a. b_assignee upd = Val a \<and> User_findById st a \<noteq> None
               \<and> a \<notin> set (teamMembers q) \<and> a \<noteq> createdBy q \<longrightarrow>
            update_ticket st now editor tid upd = (Inl BadRequest, st))
       \<and> ((\<forall>a. b_assignee upd = Val a \<longrightarrow>
              User_findById st a \<noteq> None \<and> (a \<in> set (teamMembers q) \<or> a = createdBy q)) \<longrightarrow>
            (\<forall>r. b_reporter upd = Some r \<and> User_findById st r = None \<longrightarrow>
               update_ticket st now editor tid upd = (Inl NotFound, st))
          \<and> (\<forall>r. b_reporter upd = Some r \<and> User_findById st r \<noteq> None
                  \<and> r \<notin> set (teamMembers q) \<and> r \<noteq> createdBy q \<longrightarrow>
               update_ticket st now editor tid upd = (Inl BadRequest, st))
          \<and> ((\<forall>r. b_reporter upd = Some r \<longrightarrow>
                 User_findById st r \<noteq> None \<and> (r \<in> set (teamMembers q) \<or> r = createdBy q))
               \<and> validate_ticket (Object_assign t upd) \<longrightarrow>
               (\<exists>t' st'. update_ticket st now editor tid upd = (Inr t', st')
                  \<and> Ticket_findById st' tid = Some t'
                  \<and> t' = (Object_assign t upd)\<lparr>t_updatedAt := now\<rparr>)))"
    using update_ticket_outcomes [of st tid t q editor upd now] by blast
  have e1: "\<forall>e. fst (create_ticket st now newId actor body) = Inl e \<longrightarrow>
         snd (create_ticket st now newId actor body) = st"
    using create_ticket_error_keeps_store by blast
  have e2: "\<forall>e. fst (update_ticket st now editor tid upd) = Inl e \<longrightarrow>
         snd (update_ticket st now editor tid upd) = st"
    using update_ticket_error_keeps_store by blast
  have h: "http_status NotFound = 404 \<and> http_status BadRequest = 400"
    by simp
  from c u e1 e2 h show ?thesis
    by (intro conjI) (erule conjunct1 conjunct2 | assumption)+
qed

lemma backlog_project_found: "Project_findById sample_store 11 = Some backlog_project"
  by (simp add: Project_findById_def sample_store_def)

lemma first_ticket_body_fields:
  "b_projectId (first_ticket_body\<lparr>b_assignee := x\<rparr>) = Some 11"
  "b_reporter (first_ticket_body\<lparr>b_assignee := x\<rparr>) = None"
  "b_assignee (first_ticket_body\<lparr>b_assignee := x\<rparr>) = x"
  "b_projectId first_ticket_body = Some 11"
  "b_reporter first_ticket_body = None"
  "b_assignee first_ticket_body = Absent"
  by (simp_all add: first_ticket_body_def filing_body_def empty_body_def)

lemma trim_add_search: "trim ''Add search'' = ''Add search''"
  by code_simp

lemma first_ticket_valid: "validate_ticket (new_Ticket 2000 first_ticket_body None 2 11 2)"
  by (simp add: validate_ticket_def new_Ticket_def first_ticket_body_def filing_body_def
      empty_body_def trim_add_search)

lemma reassign_body_fields:
  "b_assignee (reassign_body a) = Val a" "b_reporter (reassign_body a) = None"
  by (simp_all add: reassign_body_def empty_body_def)

lemma reassigned_valid: "validate_ticket (Object_assign sample_ticket (reassign_body 2))"
  by (simp add: validate_ticket_def Object_assign_def reassign_body_def empty_body_def
      sample_ticket_def)

lemma reassigned_assignee: "t_assignee (Object_assign sample_ticket (reassign_body 2)) = Some 2"
  by (simp add: Object_assign_def reassign_body_def empty_body_def)

theorem principals_are_validated_witness:
  "Project_findById sample_store 11 = Some backlog_project
   \<and> b_projectId first_ticket_body = Some 11
   \<and> (2 = createdBy backlog_project \<or> 2 \<in> set (teamMembers backlog_project))
   \<and> Ticket_findById sample_store 100 = Some sample_ticket
   \<and> Project_findById sample_store (t_projectId sample_ticket) = Some sample_project
   \<and> 3 = t_createdBy sample_ticket
   \<and> create_ticket sample_store 2000 102 2 (first_ticket_body\<lparr>b_assignee := Val 4\<rparr>)
        = (Inl NotFound, sample_store)
   \<and> create_ticket sample_store 2000 102 2 (first_ticket_body\<lparr>b_assignee := Val 3\<rparr>)
        = (Inl BadRequest, sample_store)
   \<and> (\<exists>t' st'. create_ticket sample_store 2000 102 2 first_ticket_body = (Inr t', st')
         \<and> Ticket_findById st' 102 = Some t' \<and> t_reporter t' = 2 \<and> t_assignee t' = None
         \<and> t_projectId t' = 11)
   \<and> update_ticket sample_store 2000 3 100 (reassign_body 4) = (Inl NotFound, sample_store)
   \<and> update_ticket sample_store 2000 3 100 (reassign_body 3) = (Inl BadRequest, sample_store)
   \<and> (\<exists>t' st'. update_ticket sample_store 2000 3 100 (reassign_body 2) = (Inr t', st')
         \<and> Ticket_findById st' 100 = Some t' \<and> t_assignee t' = Some 2)"
proof -
  have m: "2 = createdBy backlog_project \<or> 2 \<in> set (teamMembers backlog_project)"
    by (simp add: backlog_project_def)
  have k: "3 = t_createdBy sample_ticket"
    by (simp add: sample_ticket_def)
  have r: "2 = (case b_reporter body of None \<Rightarrow> 2 | Some r \<Rightarrow> r)"
    if "b_reporter body = None" for body :: ticket_body
    using that by simp
  have u3: "User_findById sample_store 3 \<noteq> None" and u2: "User_findById sample_store 2 \<noteq> None"
    by (simp_all add: sample_users)
  have out11: "3 \<notin> set (teamMembers backlog_project) \<and> 3 \<noteq> createdBy backlog_project"
    by (simp add: backlog_project_def)
  have out10: "3 \<notin> set (teamMembers sample_project) \<and> 3 \<noteq> createdBy sample_project"
    by (simp add: sample_project_def)
  have in10: "2 \<in> set (teamMembers sample_project)"
    by (simp add: sample_project_def)
  note t4 = principals_are_validated
    [where body = "first_ticket_body\<lparr>b_assignee := Val 4\<rparr>" and pid = 11 and st = sample_store
       and p = backlog_project and actor = 2 and rep = 2 and now = 2000 and newId = 102
       and tid = 100 and t = sample_ticket and q = sample_project and editor = 3
       and upd = "reassign_body 4"]
  note t3 = principals_are_validated
    [where body = "first_ticket_body\<lparr>b_assignee := Val 3\<rparr>" and pid = 11 and st = sample_store
       and p = backlog_project and actor = 2 and rep = 2 and now = 2000 and newId = 102
       and tid = 100 and t = sample_ticket and q = sample_project and editor = 3
       and upd = "reassign_body 3"]
  note t0 = principals_are_validated
    [where body = first_ticket_body and pid = 11 and st = sample_store
       and p = backlog_project and actor = 2 and rep = 2 and now = 2000 and newId = 102
       and tid = 100 and t = sample_ticket and q = sample_project and editor = 3
       and upd = "reassign_body 2"]
  have hc: "b_projectId (first_ticket_body\<lparr>b_assignee := x\<rparr>) = Some 11
            \<and> Project_findById sample_store 11 = Some backlog_project
            \<and> (2 = createdBy backlog_project \<or> 2 \<in> set (teamMembers backlog_project))
            \<and> 2 = (case b_reporter (first_ticket_body\<lparr>b_assignee := x\<rparr>) of
                      None \<Rightarrow> 2 | Some r \<Rightarrow> r)" for x
    using backlog_project_found m by (simp add: first_ticket_body_fields)
  have hc0: "b_projectId first_ticket_body = Some 11
            \<and> Project_findById sample_store 11 = Some backlog_project
            \<and> (2 = createdBy backlog_project \<or> 2 \<in> set (teamMembers backlog_project))
            \<and> 2 = (case b_reporter first_ticket_body of None \<Rightarrow> 2 | Some r \<Rightarrow> r)"
    using backlog_project_found m by (simp add: first_ticket_body_fields)
  have hu: "Ticket_findById sample_store 100 = Some sample_ticket
            \<and> Project_findById sample_store (t_projectId sample_ticket) = Some sample_project
            \<and> (3 = createdBy sample_project \<or> 3 \<in> set (teamMembers sample_project)
                 \<or> 3 = t_createdBy sample_ticket)"
    using sample_ticket_found sample_ticket_project k by simp
  note cr4 = t4 [THEN conjunct1, THEN mp, OF hc]
  note cr3 = t3 [THEN conjunct1, THEN mp, OF hc]
  note cr0 = t0 [THEN conjunct1, THEN mp, OF hc0]
  note up4 = t4 [THEN conjunct2, THEN conjunct1, THEN mp, OF hu]
  note up3 = t3 [THEN conjunct2, THEN conjunct1, THEN mp, OF hu]
  note up2 = t0 [THEN conjunct2, THEN conjunct1, THEN mp, OF hu]
  have c4: "create_ticket sample_store 2000 102 2 (first_ticket_body\<lparr>b_assignee := Val 4\<rparr>)
              = (Inl NotFound, sample_store)"
    using cr4 [THEN conjunct1, THEN spec, of 4] sample_users(4)
    by (simp add: first_ticket_body_fields)
  have c3: "create_ticket sample_store 2000 102 2 (first_ticket_body\<lparr>b_assignee := Val 3\<rparr>)
              = (Inl BadRequest, sample_store)"
    using cr3 [THEN conjunct2, THEN conjunct1, THEN spec, of 3] u3 out11
    by (simp add: first_ticket_body_fields)
  have c0: "\<exists>t' st'. create_ticket sample_store 2000 102 2 first_ticket_body = (Inr t', st')
         \<and> Ticket_findById st' 102 = Some t' \<and> t_reporter t' = 2 \<and> t_assignee t' = None
         \<and> t_projectId t' = 11"
  proof -
    have ok: "\<forall>a. b_assignee first_ticket_body = Val a \<longrightarrow>
                User_findById sample_store a \<noteq> None
                \<and> (a \<in> set (teamMembers backlog_project) \<or> a = createdBy backlog_project)"
      by (simp add: first_ticket_body_fields)
    have v: "User_findById sample_store 2 \<noteq> None
          \<and> (2 \<in> set (teamMembers backlog_project) \<or> 2 = createdBy backlog_project)
          \<and> validate_ticket
               (new_Ticket 2000 first_ticket_body (truthy (b_assignee first_ticket_body)) 2 11 2)"
      using u2 by (simp add: first_ticket_body_fields first_ticket_valid backlog_project_def)
    from cr0 [THEN conjunct2, THEN conjunct2, THEN mp, OF ok, THEN conjunct2, THEN conjunct2,
        THEN mp, OF v]
    show ?thesis
      by (simp add: first_ticket_body_fields) blast
  qed
  have w4: "update_ticket sample_store 2000 3 100 (reassign_body 4) = (Inl NotFound, sample_store)"
    using up4 [THEN conjunct1, THEN spec, of 4] sample_users(4)
    by (simp add: reassign_body_fields)
  have w3: "update_ticket sample_store 2000 3 100 (reassign_body 3) = (Inl BadRequest, sample_store)"
    using up3 [THEN conjunct2, THEN conjunct1, THEN spec, of 3] u3 out10
    by (simp add: reassign_body_fields)
  have w2: "\<exists>t' st'. update_ticket sample_store 2000 3 100 (reassign_body 2) = (Inr t', st')
         \<and> Ticket_findById st' 100 = Some t' \<and> t_assignee t' = Some 2"
  proof -
    have ok: "\<forall>a. b_assignee (reassign_body 2) = Val a \<longrightarrow>
              User_findById sample_store a \<noteq> None
              \<and> (a \<in> set (teamMembers sample_project) \<or> a = createdBy sample_project)"
      using u2 in10 by (simp add: reassign_body_fields)
    have v: "(\<forall>r. b_reporter (reassign_body 2) = Some r \<longrightarrow>
                 User_findById sample_store r \<noteq> None
                 \<and> (r \<in> set (teamMembers sample_project) \<or> r = createdBy sample_project))
               \<and> validate_ticket (Object_assign sample_ticket (reassign_body 2))"
      by (simp add: reassign_body_fields reassigned_valid)
    from up2 [THEN conjunct2, THEN conjunct2, THEN mp, OF ok, THEN conjunct2, THEN conjunct2,
        THEN mp, OF v]
    obtain t' st' where "update_ticket sample_store 2000 3 100 (reassign_body 2) = (Inr t', st')"
      and "Ticket_findById st' 100 = Some t'"
      and "t' = (Object_assign sample_ticket (reassign_body 2))\<lparr>t_updatedAt := 2000\<rparr>"
      by blast
    then show ?thesis
      using reassigned_assignee by simp
  qed
  from backlog_project_found first_ticket_body_fields(4) m sample_ticket_found sample_ticket_project
    k c4 c3 c0 w4 w3 w2
  show ?thesis
    by (intro conjI) assumption+
qed

section \<open>Comments\<close>

lemma validate_ticket_push:
  "validate_ticket (t\<lparr>t_comments := t_comments t @ [c]\<rparr>) \<longleftrightarrow> validate_ticket t \<and> c_text c \<noteq> []"
  by (auto simp: validate_ticket_def)

lemma validate_ticket_updatedAt [simp]:
  "validate_ticket (t\<lparr>t_updatedAt := n\<rparr>) = validate_ticket t"
  by (simp add: validate_ticket_def)

lemma User_findById_tickets [simp]:
  "User_findById (st\<lparr>tickets := x\<rparr>) = User_findById st"
  by (simp add: User_findById_def fun_eq_iff)

lemma Project_findById_tickets [simp]:
  "Project_findById (st\<lparr>tickets := x\<rparr>) = Project_findById st"
  by (simp add: Project_findById_def fun_eq_iff)

lemma populate_comment_tickets [simp]:
  "populate_comment (st\<lparr>tickets := x\<rparr>) c = populate_comment st c"
  by (simp add: populate_comment_def)

lemma add_comment_unfold:
  assumes "Ticket_findById st tid = Some t" and "Project_findById st (t_projectId t) = Some p"
    and "actor = createdBy p \<or> actor \<in> set (teamMembers p)"
  shows "add_comment st now actor tid txt =
           (if validate_ticket t \<and> txt \<noteq> None \<and> txt \<noteq> Some []
            then (Inr (Some (populate_comment st (comment_of (now, actor, txt)))),
                  st\<lparr>tickets := AList.update tid
                       (t\<lparr>t_comments := t_comments t @ [comment_of (now, actor, txt)],
                          t_updatedAt := now\<rparr>) (tickets st)\<rparr>)
            else (Inl BadRequest, st))"
proof -
  let ?c = "comment_of (now, actor, txt)"
  have nc: "\<lparr>c_author = actor, c_text = (case txt of None \<Rightarrow> [] | Some s \<Rightarrow> s),
             c_timestamp = now\<rparr> = ?c"
    by (simp add: comment_of_def)
  have tx: "c_text ?c \<noteq> [] \<longleftrightarrow> txt \<noteq> None \<and> txt \<noteq> Some []"
    by (cases "txt") (simp_all add: comment_of_def)
  have u: "add_comment st now actor tid txt =
             (case Ticket_save st now tid (t\<lparr>t_comments := t_comments t @ [?c]\<rparr>) of
                None \<Rightarrow> (Inl BadRequest, st)
              | Some (t', st') \<Rightarrow>
                  (case Ticket_findById st' tid of
                     None \<Rightarrow> (Inl BadRequest, st')
                   | Some populatedTicket \<Rightarrow>
                       (case rev (t_comments populatedTicket) of
                          [] \<Rightarrow> (Inr None, st')
                        | latestComment # _ \<Rightarrow>
                            (Inr (Some (populate_comment st' latestComment)), st'))))"
    using assms by (auto simp: add_comment_def Let_def nc)
  show ?thesis
  proof (cases "validate_ticket t \<and> txt \<noteq> None \<and> txt \<noteq> Some []")
    case True
    then have v: "validate_ticket (t\<lparr>t_comments := t_comments t @ [?c]\<rparr>)"
      using tx by (simp add: validate_ticket_push)
    show ?thesis
      using True by (simp add: u Ticket_save_valid [OF v])
  next
    case False
    then have v: "\<not> validate_ticket (t\<lparr>t_comments := t_comments t @ [?c]\<rparr>)"
      using tx by (simp add: validate_ticket_push)
    show ?thesis
      using False by (simp add: u Ticket_save_invalid [OF v])
  qed
qed

lemma add_comment_Inr:
  assumes "add_comment st now actor tid txt = (Inr body, st')"
    and "Ticket_findById st tid = Some t"
  shows "\<exists>p. Project_findById st (t_projectId t) = Some p
           \<and> (actor = createdBy p \<or> actor \<in> set (teamMembers p))
           \<and> validate_ticket t \<and> txt \<noteq> None \<and> txt \<noteq> Some []
           \<and> body = Some (populate_comment st (comment_of (now, actor, txt)))
           \<and> st' = st\<lparr>tickets := AList.update tid
                       (t\<lparr>t_comments := t_comments t @ [comment_of (now, actor, txt)],
                          t_updatedAt := now\<rparr>) (tickets st)\<rparr>"
proof (cases "Project_findById st (t_projectId t)")
  case None
  with assms show ?thesis
    by (simp add: add_comment_def)
next
  case (Some p)
  show ?thesis
  proof (cases "actor = createdBy p \<or> actor \<in> set (teamMembers p)")
    case True
    from assms(1) show ?thesis
      unfolding add_comment_unfold [OF assms(2) Some True]
      using Some True by (auto split: if_splits)
  next
    case False
    with assms Some show ?thesis
      by (auto simp: add_comment_def Let_def)
  qed
qed

lemma add_comments_Inr:
  "add_comments st tid rs = Inr st' \<Longrightarrow> Ticket_findById st tid = Some t \<Longrightarrow>
     \<exists>t'. Ticket_findById st' tid = Some t' \<and> t_comments t' = t_comments t @ map comment_of rs"
proof (induction rs arbitrary: st t)
  case Nil
  then show ?case by simp
next
  case (Cons r rs)
  obtain now actor msg where r: "r = (now, actor, msg)"
    by (cases r) auto
  obtain res st1 where s: "add_comment st now actor tid msg = (res, st1)"
    by (cases "add_comment st now actor tid msg") auto
  with Cons.prems r obtain body where b: "res = Inr body" and rest: "add_comments st1 tid rs = Inr st'"
    by (cases res) auto
  from add_comment_Inr [OF s [unfolded b] Cons.prems(2)]
  have f: "Ticket_findById st1 tid =
             Some (t\<lparr>t_comments := t_comments t @ [comment_of (now, actor, msg)], t_updatedAt := now\<rparr>)"
    by auto
  from Cons.IH [OF rest f] show ?case
    by (simp add: r)
qed

lemma add_comments_succeed:
  "Ticket_findById st tid = Some t \<Longrightarrow> Project_findById st (t_projectId t) = Some p \<Longrightarrow>
   validate_ticket t \<Longrightarrow>
   \<forall>r \<in> set rs. (fst (snd r) = createdBy p \<or> fst (snd r) \<in> set (teamMembers p))
                  \<and> snd (snd r) \<noteq> None \<and> snd (snd r) \<noteq> Some [] \<Longrightarrow>
   \<exists>st'. add_comments st tid rs = Inr st'"
proof (induction rs arbitrary: st t)
  case Nil
  then show ?case by simp
next
  case (Cons r rs)
  obtain now actor msg where r: "r = (now, actor, msg)"
    by (cases r) auto
  let ?t = "t\<lparr>t_comments := t_comments t @ [comment_of (now, actor, msg)], t_updatedAt := now\<rparr>"
  let ?st = "st\<lparr>tickets := AList.update tid ?t (tickets st)\<rparr>"
  have acc: "actor = createdBy p \<or> actor \<in> set (teamMembers p)"
    and nonempty: "msg \<noteq> None \<and> msg \<noteq> Some []"
    using Cons.prems(4) r by auto
  have s: "add_comment st now actor tid msg =
             (Inr (Some (populate_comment st (comment_of (now, actor, msg)))), ?st)"
    using add_comment_unfold [OF Cons.prems(1) Cons.prems(2) acc, of now msg] Cons.prems(3) nonempty
    by simp
  have f: "Ticket_findById ?st tid = Some ?t"
    by simp
  have pj: "Project_findById ?st (t_projectId ?t) = Some p"
    using Cons.prems(2) by simp
  have v: "validate_ticket ?t"
    using Cons.prems(3) nonempty by (auto simp: validate_ticket_def comment_of_def)
  have "\<exists>st'. add_comments ?st tid rs = Inr st'"
    using Cons.IH [OF f pj v] Cons.prems(4) by simp
  then show ?case
    by (simp add: r s)
qed

lemma timestamps_of_requests: "map c_timestamp (map comment_of rs) = map fst rs"
  by (simp add: comment_of_def)

text \<open>
  C8. A successful comment request stores the ticket's old log followed by exactly one
  new entry, whose author is the actor and whose timestamp is the clock reading of the
  request, and answers with that entry alone, its author replaced by the user
  document. After \<open>N\<close> successful requests in a row on a ticket with an empty log,
  the log has \<open>N\<close> entries, in the order of the requests, and their timestamps are
  the clock readings of the requests, hence non-decreasing whenever the clock readings
  are. Requests by actors with access to the project, each with a non-empty text, on a
  valid ticket all succeed.
\<close>

theorem comments_are_appended:
  assumes "Ticket_findById st tid = Some t"
  shows "(\<forall>body st'. add_comment st now actor tid txt = (Inr body, st') \<longrightarrow>
            (\<exists>t'. Ticket_findById st' tid = Some t'
               \<and> t_comments t' = t_comments t @ [comment_of (now, actor, txt)]
               \<and> c_author (comment_of (now, actor, txt)) = actor
               \<and> c_timestamp (comment_of (now, actor, txt)) = now
               \<and> body = Some \<lparr>pc_author = User_findById st actor,
                               pc_text = c_text (comment_of (now, actor, txt)),
                               pc_timestamp = now\<rparr>))
       \<and> (\<forall>st'. add_comments st tid rs = Inr st' \<longrightarrow>
            (\<exists>t'. Ticket_findById st' tid = Some t'
               \<and> t_comments t' = t_comments t @ map comment_of rs
               \<and> (t_comments t = [] \<longrightarrow>
                    length (t_comments t') = length rs
                    \<and> map c_timestamp (t_comments t') = map fst rs
                    \<and> (sorted (map fst rs) \<longrightarrow> sorted (map c_timestamp (t_comments t'))))))
       \<and> (\<forall>p. Project_findById st (t_projectId t) = Some p \<and> validate_ticket t
               \<and> (\<forall>r \<in> set rs. (fst (snd r) = createdBy p \<or> fst (snd r) \<in> set (teamMembers p))
                      \<and> snd (snd r) \<noteq> None \<and> snd (snd r) \<noteq> Some []) \<longrightarrow>
            (\<exists>st'. add_comments st tid rs = Inr st'))"
proof (intro conjI allI impI)
  fix body st'
  assume a: "add_comment st now actor tid txt = (Inr body, st')"
  from add_comment_Inr [OF a assms]
  show "\<exists>t'. Ticket_findById st' tid = Some t'
               \<and> t_comments t' = t_comments t @ [comment_of (now, actor, txt)]
               \<and> c_author (comment_of (now, actor, txt)) = actor
               \<and> c_timestamp (comment_of (now, actor, txt)) = now
               \<and> body = Some \<lparr>pc_author = User_findById st actor,
                               pc_text = c_text (comment_of (now, actor, txt)),
                               pc_timestamp = now\<rparr>"
    by (auto simp: populate_comment_def comment_of_def)
next
  fix st'
  assume a: "add_comments st tid rs = Inr st'"
  from add_comments_Inr [OF a assms] obtain t' where
    t': "Ticket_findById st' tid = Some t'" "t_comments t' = t_comments t @ map comment_of rs"
    by blast
  then show "\<exists>t'. Ticket_findById st' tid = Some t'
               \<and> t_comments t' = t_comments t @ map comment_of rs
               \<and> (t_comments t = [] \<longrightarrow>
                    length (t_comments t') = length rs
                    \<and> map c_timestamp (t_comments t') = map fst rs
                    \<and> (sorted (map fst rs) \<longrightarrow> sorted (map c_timestamp (t_comments t'))))"
    by (simp add: timestamps_of_requests del: map_map)
next
  fix p
  assume "Project_findById st (t_projectId t) = Some p \<and> validate_ticket t
               \<and> (\<forall>r \<in> set rs. (fst (snd r) = createdBy p \<or> fst (snd r) \<in> set (teamMembers p))
                      \<and> snd (snd r) \<noteq> None \<and> snd (snd r) \<noteq> Some [])"
  then show "\<exists>st'. add_comments st tid rs = Inr st'"
    using add_comments_succeed [OF assms, of p rs] by blast
qed

theorem comments_are_appended_witness:
  "Ticket_findById sample_store 100 = Some sample_ticket
   \<and> Project_findById sample_store (t_projectId sample_ticket) = Some sample_project
   \<and> validate_ticket sample_ticket
   \<and> t_comments sample_ticket = []
   \<and> sorted (map fst sample_requests)
   \<and> (\<exists>st' t'. add_comments sample_store 100 sample_requests = Inr st'
         \<and> Ticket_findById st' 100 = Some t'
         \<and> t_comments t' = map comment_of sample_requests
         \<and> length (t_comments t') = 3
         \<and> map c_timestamp (t_comments t') = [3000, 3000, 3005])"
proof -
  have c: "t_comments sample_ticket = []"
    by (simp add: sample_ticket_def)
  have s: "sorted (map fst sample_requests)"
    by (simp add: sample_requests_def)
  have r: "\<forall>r \<in> set sample_requests.
             (fst (snd r) = createdBy sample_project \<or> fst (snd r) \<in> set (teamMembers sample_project))
             \<and> snd (snd r) \<noteq> None \<and> snd (snd r) \<noteq> Some []"
    by (simp add: sample_requests_def sample_project_def)
  have l: "length sample_requests = 3" "map fst sample_requests = [3000, 3000, 3005]"
    by (simp_all add: sample_requests_def)
  show ?thesis
    using comments_are_appended [OF sample_ticket_found, of 0 0 None sample_requests]
      sample_ticket_found sample_ticket_project sample_ticket_valid c s r l
    by (metis append_Nil)
qed


section \<open>Event relay delivery\<close>






















end
